theory Spec2Isabelle
  imports Complex_Main
begin

section \<open>The lane-keeping agent of basic\_agent.py\<close>

text \<open>
  A shallow embedding of class \<open>Basic_Agent\<close>
  (src/macad\_gym/core/controllers/basic\_agent.py). The object \<open>self\<close> is the record
  \<open>agent\<close>; every method takes the agent and returns its result together with the
  updated agent. A Python exception is the left injection of a sum. Python floats are
  read as real numbers (rounding, infinities and NaN are not modelled). The simulator
  (\<open>carla\<close>), the geometry helpers of \<open>misc\<close>, the PID controller and the random
  generator are outside this file: what they answer during one call of \<open>run_step\<close> is
  collected in the record \<open>world\<close>. The attribute names of \<open>self\<close> are kept without their
  leading underscore.
\<close>

subsection \<open>Data\<close>

text \<open>\<open>Action\<close> is imported from \<open>macad_gym.core.utils.wrapper\<close>; the three members used
  by the agent are its constructors. The integer \<open>.value\<close> of a member is not fixed by this
  file, it is the parameter \<open>av\<close> of the functions below.\<close>

datatype Action = LANE_FOLLOW | LANE_CHANGE_LEFT | LANE_CHANGE_RIGHT

datatype py_error = IndexError | TypeError

datatype TrafficLightState = Red | Yellow | Green | Off | Unknown

type_synonym location = "real \<times> real \<times> real"

record waypoint =
  wp_location :: location
  wp_road_id :: int
  wp_forward :: "real \<times> real \<times> real"

text \<open>What the PID controller returns, and the \<open>ControlInfo\<close> built from it. \<open>hand_brake\<close>
  is \<open>None\<close> as long as this file has not assigned the attribute.\<close>

record raw_control =
  raw_throttle :: real
  raw_brake :: real
  raw_steer :: real
  raw_gear :: int

record ControlInfo =
  throttle :: real
  brake :: real
  steer :: real
  gear :: int
  hand_brake :: "bool option"

text \<open>The answers of the collaborators during one tick. A traffic light is named by its
  actor id; \<open>light_state\<close> is the state the simulator reports for it on this tick.\<close>

record world =
  vehicle_speed :: real
  veh_location :: location
  lane_center :: waypoint
  ego_waypoint :: waypoint
  loc_distance :: "location \<Rightarrow> location \<Rightarrow> real"
  world_lights :: "int list"
  light_state :: "int \<Rightarrow> TrafficLightState"
  trigger_waypoint :: "int \<Rightarrow> waypoint"
  is_within_distance :: "waypoint \<Rightarrow> real \<Rightarrow> bool"
  pid_controller :: "real \<Rightarrow> waypoint \<Rightarrow> raw_control"
  random_draw :: nat

record agent =
  last_traffic_light :: "int option"
  ignore_traffic_lights :: bool
  ignore_vehicle :: bool
  ignore_change_gap :: bool
  lanechanging_fps :: int
  target_speed :: real
  max_brake :: real
  base_min_distance :: real
  base_tlight_threshold :: real
  base_vehicle_threshold :: real
  lane_change_mode :: bool
  last_lane :: "int option"
  autopilot_step :: int
  random_lane_change :: bool
  left_wps :: "waypoint list"
  center_wps :: "waypoint list"
  right_wps :: "waypoint list"
  left_rear_wps :: "waypoint list"
  center_rear_wps :: "waypoint list"
  right_rear_wps :: "waypoint list"
  distance_to_left_front :: "real option"
  distance_to_center_front :: "real option"
  distance_to_right_front :: "real option"
  distance_to_left_rear :: "real option"
  distance_to_center_rear :: "real option"
  distance_to_right_rear :: "real option"
  enable_left_change :: bool
  enable_right_change :: bool
  left_random_change :: "Action list"
  center_random_change :: "Action list"
  right_random_change :: "Action list"
  lights_map :: "int \<rightharpoonup> waypoint"
  min_distance :: "real option"
  target_waypoint :: "waypoint option"

text \<open>The keys of \<open>opt_dict\<close> that reach the attributes above; \<open>None\<close> is an absent key.
  The remaining keys only configure the PID controller.\<close>

record opt_dict =
  opt_ignore_traffic_lights :: "bool option"
  opt_base_tlight_threshold :: "real option"
  opt_base_vehicle_threshold :: "real option"
  opt_max_brake :: "real option"
  opt_ignore_front_vehicle :: "bool option"
  opt_ignore_change_gap :: "bool option"
  opt_lanechanging_fps :: "int option"
  opt_target_speed :: "real option"
  opt_random_lane_change :: "bool option"

text \<open>The argument of \<open>set_info\<close>: six waypoint buffers and, from \<open>vehs_info\<close>, the three
  front and the three rear distances.\<close>

record info_dict =
  info_left_wps :: "waypoint list"
  info_center_wps :: "waypoint list"
  info_right_wps :: "waypoint list"
  info_left_rear_wps :: "waypoint list"
  info_center_rear_wps :: "waypoint list"
  info_right_rear_wps :: "waypoint list"
  distance_to_front_vehicles :: "real \<times> real \<times> real"
  distance_to_rear_vehicles :: "real \<times> real \<times> real"

subsection \<open>Python helpers\<close>

text \<open>\<open>xs[i]\<close>: a negative index counts from the end, an index out of range raises.\<close>

definition list_item :: "'a list \<Rightarrow> int \<Rightarrow> py_error + 'a" where
  "list_item xs i =
     (if 0 \<le> i then (if i < int (length xs) then Inr (xs ! nat i) else Inl IndexError)
      else if - i \<le> int (length xs) then Inr (xs ! nat (int (length xs) + i))
      else Inl IndexError)"

text \<open>\<open>random.choice(xs)\<close>: raises on an empty sequence, otherwise returns the element at
  an index below the length; the index is decided by the draw \<open>r\<close>.\<close>

definition random_choice :: "nat \<Rightarrow> 'a list \<Rightarrow> py_error + 'a" where
  "random_choice r xs = (if xs = [] then Inl IndexError else Inr (xs ! (r mod length xs)))"

definition np_clip :: "real \<Rightarrow> real \<Rightarrow> real \<Rightarrow> real" where
  "np_clip x lo hi = min (max x lo) hi"

text \<open>Truth value of \<open>self.last_lane\<close>: \<open>None\<close> and \<open>0\<close> are false.\<close>

definition truthy_lane :: "int option \<Rightarrow> bool" where
  "truthy_lane l = (case l of None \<Rightarrow> False | Some n \<Rightarrow> n \<noteq> 0)"

text \<open>\<open>a - b > m\<close> on attributes that are \<open>None\<close> before the first \<open>set_info\<close>.\<close>

definition gap_exceeds :: "real option \<Rightarrow> real option \<Rightarrow> real \<Rightarrow> py_error + bool" where
  "gap_exceeds a b m =
     (case a of None \<Rightarrow> Inl TypeError
      | Some x \<Rightarrow> (case b of None \<Rightarrow> Inl TypeError | Some y \<Rightarrow> Inr (x - y > m)))"

definition exceeds :: "real option \<Rightarrow> real \<Rightarrow> py_error + bool" where
  "exceeds a m = (case a of None \<Rightarrow> Inl TypeError | Some x \<Rightarrow> Inr (x > m))"

text \<open>\<open>p and q\<close> of the gap policy: \<open>q\<close> is evaluated only when \<open>p\<close> is true.\<close>

definition gap_ok :: "real option \<Rightarrow> real option \<Rightarrow> real option \<Rightarrow> py_error + bool" where
  "gap_ok side_front center_front side_rear =
     (case gap_exceeds side_front center_front 5 of
        Inl e \<Rightarrow> Inl e
      | Inr False \<Rightarrow> Inr False
      | Inr True \<Rightarrow> exceeds side_rear 1)"

subsection \<open>Construction\<close>

definition init_random_change :: "agent \<Rightarrow> agent" where
  "init_random_change s =
     (let n = nat (lanechanging_fps s) in
      s\<lparr>left_random_change :=
           left_random_change s @ replicate n LANE_FOLLOW @ [LANE_CHANGE_RIGHT],
        center_random_change :=
           center_random_change s @ replicate n LANE_FOLLOW
             @ [LANE_CHANGE_RIGHT, LANE_CHANGE_LEFT],
        right_random_change :=
           right_random_change s @ replicate n LANE_FOLLOW @ [LANE_CHANGE_LEFT]\<rparr>)"

definition opt_or :: "'a option \<Rightarrow> 'a \<Rightarrow> 'a" where
  "opt_or v d = (case v of None \<Rightarrow> d | Some x \<Rightarrow> x)"

definition init :: "opt_dict \<Rightarrow> agent" where
  "init od = init_random_change
     \<lparr>last_traffic_light = None,
      ignore_traffic_lights = opt_or (opt_ignore_traffic_lights od) False,
      ignore_vehicle = opt_or (opt_ignore_front_vehicle od) False,
      ignore_change_gap = opt_or (opt_ignore_change_gap od) False,
      lanechanging_fps = opt_or (opt_lanechanging_fps od) 50,
      target_speed = opt_or (opt_target_speed od) 20,
      max_brake = opt_or (opt_max_brake od) (3 / 10),
      base_min_distance = 3,
      base_tlight_threshold = opt_or (opt_base_tlight_threshold od) 5,
      base_vehicle_threshold = opt_or (opt_base_vehicle_threshold od) 10,
      lane_change_mode = False,
      last_lane = None,
      autopilot_step = 0,
      random_lane_change = opt_or (opt_random_lane_change od) True,
      left_wps = [], center_wps = [], right_wps = [],
      left_rear_wps = [], center_rear_wps = [], right_rear_wps = [],
      distance_to_left_front = None, distance_to_center_front = None,
      distance_to_right_front = None, distance_to_left_rear = None,
      distance_to_center_rear = None, distance_to_right_rear = None,
      enable_left_change = True, enable_right_change = True,
      left_random_change = [], center_random_change = [], right_random_change = [],
      lights_map = Map.empty,
      min_distance = None,
      target_waypoint = None\<rparr>"

definition default_opts :: opt_dict where
  "default_opts = \<lparr>opt_ignore_traffic_lights = None, opt_base_tlight_threshold = None,
     opt_base_vehicle_threshold = None, opt_max_brake = None,
     opt_ignore_front_vehicle = None, opt_ignore_change_gap = None,
     opt_lanechanging_fps = None, opt_target_speed = None,
     opt_random_lane_change = None\<rparr>"

subsection \<open>Perception update: \<open>set_info\<close>\<close>

definition set_info :: "agent \<Rightarrow> info_dict \<Rightarrow> agent" where
  "set_info s info =
     (let s1 = s\<lparr>left_wps := info_left_wps info,
                 center_wps := info_center_wps info,
                 right_wps := info_right_wps info,
                 left_rear_wps := info_left_rear_wps info,
                 center_rear_wps := info_center_rear_wps info,
                 right_rear_wps := info_right_rear_wps info,
                 distance_to_left_front := Some (fst (distance_to_front_vehicles info)),
                 distance_to_center_front :=
                   Some (fst (snd (distance_to_front_vehicles info))),
                 distance_to_right_front :=
                   Some (snd (snd (distance_to_front_vehicles info))),
                 distance_to_left_rear := Some (fst (distance_to_rear_vehicles info)),
                 distance_to_center_rear :=
                   Some (fst (snd (distance_to_rear_vehicles info))),
                 distance_to_right_rear :=
                   Some (snd (snd (distance_to_rear_vehicles info)))\<rparr>
      in if ignore_change_gap s1 then
           (let s2 = (if length (left_wps s1) \<noteq> 0
                      then s1\<lparr>enable_left_change := True\<rparr> else s1)
            in if length (right_wps s2) \<noteq> 0
               then s2\<lparr>enable_right_change := True\<rparr> else s2)
         else
           (let s2 = s1\<lparr>enable_left_change := False, enable_right_change := False\<rparr>;
                s3 = (if length (left_wps s2) \<noteq> 0
                      then s2\<lparr>enable_left_change := True\<rparr> else s2)
            in if length (right_wps s3) \<noteq> 0
               then s3\<lparr>enable_right_change := True\<rparr> else s3))"

subsection \<open>Hazard detection\<close>

definition vehicle_obstacle_detected :: "agent \<Rightarrow> real \<Rightarrow> py_error + bool" where
  "vehicle_obstacle_detected s max_dis =
     (case distance_to_center_front s of
        None \<Rightarrow> Inl TypeError
      | Some d \<Rightarrow> Inr (d < max_dis \<and> \<not> ignore_vehicle s))"

text \<open>The loop over \<open>lights_list\<close> of \<open>_affected_by_traffic_light\<close>; \<open>continue\<close> is the
  recursive call on the rest of the list.\<close>

fun scan_lights :: "world \<Rightarrow> real \<Rightarrow> agent \<Rightarrow> int list \<Rightarrow> (bool \<times> int option) \<times> agent" where
  "scan_lights w max_distance s [] = ((False, None), s)"
| "scan_lights w max_distance s (traffic_light # rest) =
     (let trigger_wp = (case lights_map s traffic_light of
                          Some wp \<Rightarrow> wp
                        | None \<Rightarrow> trigger_waypoint w traffic_light);
          s1 = (case lights_map s traffic_light of
                  Some wp \<Rightarrow> s
                | None \<Rightarrow> s\<lparr>lights_map := (lights_map s)(traffic_light \<mapsto> trigger_wp)\<rparr>)
      in if loc_distance w (wp_location trigger_wp) (veh_location w) > max_distance
         then scan_lights w max_distance s1 rest
         else if wp_road_id trigger_wp \<noteq> wp_road_id (ego_waypoint w)
         then scan_lights w max_distance s1 rest
         else
           (let ve_dir = wp_forward (ego_waypoint w);
                wp_dir = wp_forward trigger_wp;
                dot_ve_wp = fst ve_dir * fst wp_dir + fst (snd ve_dir) * fst (snd wp_dir)
                              + snd (snd ve_dir) * snd (snd wp_dir)
            in if dot_ve_wp < 0 then scan_lights w max_distance s1 rest
               else if light_state w traffic_light \<noteq> Red
               then scan_lights w max_distance s1 rest
               else if is_within_distance w trigger_wp max_distance
               then ((True, Some traffic_light), s1\<lparr>last_traffic_light := Some traffic_light\<rparr>)
               else scan_lights w max_distance s1 rest))"

text \<open>\<open>not lights_list\<close> holds for \<open>None\<close> and for an empty list, \<open>not max_distance\<close> for
  \<open>None\<close> and for \<open>0\<close>. The cached light is an actor object, which is always true.\<close>

definition affected_by_traffic_light ::
  "world \<Rightarrow> agent \<Rightarrow> int list option \<Rightarrow> real option \<Rightarrow> (bool \<times> int option) \<times> agent" where
  "affected_by_traffic_light w s lights_list max_distance =
     (if ignore_traffic_lights s then ((False, None), s)
      else
        (let lights_list1 = (case lights_list of
                               None \<Rightarrow> world_lights w
                             | Some ls \<Rightarrow> if ls = [] then world_lights w else ls);
             max_distance1 = (case max_distance of
                                None \<Rightarrow> base_tlight_threshold s
                              | Some d \<Rightarrow> if d = 0 then base_tlight_threshold s else d)
         in case last_traffic_light s of
              Some l \<Rightarrow>
                if light_state w l \<noteq> Red
                then scan_lights w max_distance1 (s\<lparr>last_traffic_light := None\<rparr>) lights_list1
                else ((True, Some l), s)
            | None \<Rightarrow> scan_lights w max_distance1 s lights_list1))"

subsection \<open>Maneuver decision: \<open>_lane_change_action\<close>\<close>

text \<open>The list \<open>change_choice\<close> built from the center lane.\<close>

definition change_choice :: "agent \<Rightarrow> py_error + Action list" where
  "change_choice s =
     (case gap_ok (distance_to_left_front s) (distance_to_center_front s)
             (distance_to_left_rear s) of
        Inl e \<Rightarrow> Inl e
      | Inr l \<Rightarrow>
          (case gap_ok (distance_to_right_front s) (distance_to_center_front s)
                  (distance_to_right_rear s) of
             Inl e \<Rightarrow> Inl e
           | Inr r \<Rightarrow>
               Inr ((if l then [LANE_CHANGE_LEFT] else [])
                    @ (if r then [LANE_CHANGE_RIGHT] else []))))"

text \<open>The value of \<open>lane_change\<close> before the enablement flags are looked at
  (lines 266 to 299).\<close>

definition lane_change_candidate :: "world \<Rightarrow> agent \<Rightarrow> int \<Rightarrow> py_error + Action" where
  "lane_change_candidate w s current_lane =
     (if random_lane_change s then
        (if current_lane = -2 then random_choice (random_draw w) (center_random_change s)
         else if current_lane = -1 then random_choice (random_draw w) (left_random_change s)
         else if current_lane = -3 then random_choice (random_draw w) (right_random_change s)
         else Inr LANE_FOLLOW)
      else
        (if current_lane = -2 then
           (case change_choice s of
              Inl e \<Rightarrow> Inl e
            | Inr cs \<Rightarrow> if length cs = 0 then Inr LANE_FOLLOW
                        else random_choice (random_draw w) cs)
         else if current_lane = -1 then
           (case gap_ok (distance_to_right_front s) (distance_to_center_front s)
                   (distance_to_right_rear s) of
              Inl e \<Rightarrow> Inl e
            | Inr ok \<Rightarrow> Inr (if ok then LANE_CHANGE_RIGHT else LANE_FOLLOW))
         else if current_lane = -3 then
           (case gap_ok (distance_to_left_front s) (distance_to_center_front s)
                   (distance_to_left_rear s) of
              Inl e \<Rightarrow> Inl e
            | Inr ok \<Rightarrow> Inr (if ok then LANE_CHANGE_LEFT else LANE_FOLLOW))
         else Inr LANE_FOLLOW))"

text \<open>Lines 301 to 304.\<close>

definition gate :: "agent \<Rightarrow> Action \<Rightarrow> Action" where
  "gate s lane_change =
     (let lc1 = (if lane_change = LANE_CHANGE_LEFT \<and> \<not> enable_left_change s
                 then LANE_FOLLOW else lane_change)
      in if lc1 = LANE_CHANGE_RIGHT \<and> \<not> enable_right_change s then LANE_FOLLOW else lc1)"

definition lane_change_action ::
  "(Action \<Rightarrow> int) \<Rightarrow> world \<Rightarrow> agent \<Rightarrow> int \<Rightarrow> int \<Rightarrow> Action
     \<Rightarrow> (py_error + Action \<times> int) \<times> agent" where
  "lane_change_action av w s current_lane last_target_lane last_action =
     (case lane_change_candidate w s current_lane of
        Inl e \<Rightarrow> (Inl e, s)
      | Inr lane_change0 \<Rightarrow>
          (let lane_change = gate s lane_change0 in
           if truthy_lane (last_lane s) then
             (if Some current_lane = last_lane s then
                (if lane_change_mode s then
                   (Inr (last_action, last_target_lane), s\<lparr>last_lane := Some current_lane\<rparr>)
                 else
                   (Inr (lane_change, current_lane - av lane_change),
                    (if lane_change \<noteq> LANE_FOLLOW then s\<lparr>lane_change_mode := True\<rparr> else s)
                      \<lparr>last_lane := Some current_lane\<rparr>))
              else
                (Inr (LANE_FOLLOW, current_lane),
                 s\<lparr>lane_change_mode := False, last_lane := Some current_lane\<rparr>))
           else
             (Inr (LANE_FOLLOW, current_lane),
              s\<lparr>lane_change_mode := False, last_lane := Some current_lane\<rparr>)))"

subsection \<open>Trajectory tracking: \<open>_pid_run_step\<close>\<close>

text \<open>Lines 348 to 354: the \<open>if\<close>/\<open>elif\<close> chain in the order of the source.\<close>

definition next_wp_of :: "real \<Rightarrow> int" where
  "next_wp_of d = (if d > 1 then 2 else if d > 2 then 3 else if d > 3 then 4 else 1)"

definition adjusted_min_distance :: "world \<Rightarrow> agent \<Rightarrow> real" where
  "adjusted_min_distance w s =
     (let veh_waypoint = lane_center w;
          lane_center_ratio =
            1 - loc_distance w (wp_location veh_waypoint) (veh_location w) / 4
      in base_min_distance s * lane_center_ratio)"

definition pid_run_step :: "world \<Rightarrow> agent \<Rightarrow> Action \<Rightarrow> (py_error + ControlInfo) \<times> agent" where
  "pid_run_step w s new_action =
     (let s1 = s\<lparr>min_distance := Some (adjusted_min_distance w s)\<rparr>;
          next_wp = next_wp_of (adjusted_min_distance w s);
          speed = (case new_action of
                     LANE_CHANGE_LEFT \<Rightarrow> 50
                   | LANE_FOLLOW \<Rightarrow> target_speed s1
                   | LANE_CHANGE_RIGHT \<Rightarrow> 50);
          item = (case new_action of
                    LANE_CHANGE_LEFT \<Rightarrow> list_item (left_wps s1) (next_wp + 15 - 1)
                  | LANE_FOLLOW \<Rightarrow> list_item (center_wps s1) (next_wp + 2 - 1)
                  | LANE_CHANGE_RIGHT \<Rightarrow> list_item (right_wps s1) (next_wp + 15 - 1))
      in case item of
           Inl e \<Rightarrow> (Inl e, s1)
         | Inr wp \<Rightarrow>
             (let control = pid_controller w speed wp
              in (Inr \<lparr>throttle = raw_throttle control, brake = raw_brake control,
                       steer = raw_steer control, gear = raw_gear control,
                       hand_brake = None\<rparr>,
                  s1\<lparr>target_waypoint := Some wp\<rparr>)))"

subsection \<open>The tick: \<open>run_step\<close>\<close>

definition add_emergency_stop :: "agent \<Rightarrow> ControlInfo \<Rightarrow> ControlInfo" where
  "add_emergency_stop s control =
     control\<lparr>throttle := 0, brake := max_brake s, hand_brake := Some False\<rparr>"

definition max_vehicle_distance :: "agent \<Rightarrow> world \<Rightarrow> real" where
  "max_vehicle_distance s w = base_vehicle_threshold s + vehicle_speed w"

definition max_tlight_distance :: "agent \<Rightarrow> world \<Rightarrow> real" where
  "max_tlight_distance s w = base_tlight_threshold s + vehicle_speed w"

text \<open>Lines 237 to 241.\<close>

definition clamp_steer :: "bool \<Rightarrow> Action \<Rightarrow> ControlInfo \<Rightarrow> ControlInfo" where
  "clamp_steer modify_change_steer new_action control =
     (if modify_change_steer then
        (if new_action = LANE_CHANGE_LEFT
         then control\<lparr>steer := np_clip (steer control) (-1) 0\<rparr>
         else if new_action = LANE_CHANGE_RIGHT
         then control\<lparr>steer := np_clip (steer control) 0 1\<rparr>
         else control)
      else control)"

definition run_step ::
  "(Action \<Rightarrow> int) \<Rightarrow> world \<Rightarrow> agent \<Rightarrow> int \<Rightarrow> int \<Rightarrow> Action \<Rightarrow> bool
     \<Rightarrow> (py_error + ControlInfo \<times> int \<times> Action) \<times> agent" where
  "run_step av w s current_lane last_target_lane last_action modify_change_steer =
     (let s0 = s\<lparr>autopilot_step := autopilot_step s + 1\<rparr> in
      case vehicle_obstacle_detected s0 (max_vehicle_distance s0 w) of
        Inl e \<Rightarrow> (Inl e, s0)
      | Inr affected_by_vehicle \<Rightarrow>
          (let tl = affected_by_traffic_light w s0 (Some (world_lights w))
                      (Some (max_tlight_distance s0 w));
               affected_by_tlight = fst (fst tl);
               lca = lane_change_action av w (snd tl) current_lane last_target_lane
                       last_action
           in case fst lca of
                Inl e \<Rightarrow> (Inl e, snd lca)
              | Inr decision \<Rightarrow>
                  (let new_action = fst decision;
                       new_target_lane = snd decision;
                       pid = pid_run_step w (snd lca) new_action
                   in case fst pid of
                        Inl e \<Rightarrow> (Inl e, snd pid)
                      | Inr control \<Rightarrow>
                          (let control1 = clamp_steer modify_change_steer new_action control;
                               control2 =
                                 (if affected_by_tlight
                                     \<or> (new_action = LANE_FOLLOW \<and> affected_by_vehicle)
                                  then add_emergency_stop (snd pid) control1
                                  else control1)
                           in (Inr (control2, new_target_lane, new_action), snd pid)))))"

subsection \<open>Sequences of ticks\<close>

text \<open>One tick of the driver: the perception update, then \<open>run_step\<close>. The agent object
  outlives an exception, with the assignments made before it.\<close>

record tick =
  tick_info :: info_dict
  tick_world :: world
  current_lane :: int
  last_target_lane :: int
  last_action :: Action
  modify_change_steer :: bool

definition agent_tick ::
  "(Action \<Rightarrow> int) \<Rightarrow> agent \<Rightarrow> tick
     \<Rightarrow> (py_error + ControlInfo \<times> int \<times> Action) \<times> agent" where
  "agent_tick av s t =
     run_step av (tick_world t) (set_info s (tick_info t)) (current_lane t)
       (last_target_lane t) (last_action t) (modify_change_steer t)"

fun agent_after :: "(Action \<Rightarrow> int) \<Rightarrow> agent \<Rightarrow> tick list \<Rightarrow> agent" where
  "agent_after av s [] = s"
| "agent_after av s (t # ts) = agent_after av (snd (agent_tick av s t)) ts"

fun run_ticks ::
  "(Action \<Rightarrow> int) \<Rightarrow> agent \<Rightarrow> tick list \<Rightarrow> (py_error + ControlInfo \<times> int \<times> Action) list" where
  "run_ticks av s [] = []"
| "run_ticks av s (t # ts) =
     fst (agent_tick av s t) # run_ticks av (snd (agent_tick av s t)) ts"

subsection \<open>Projections used to say what a method leaves alone\<close>

text \<open>Each projection resets the attributes a method may assign; two agents with the same
  projection agree on every other attribute.\<close>

definition tl_frame :: "agent \<Rightarrow> agent" where
  "tl_frame s = s\<lparr>last_traffic_light := None, lights_map := Map.empty\<rparr>"

definition lca_frame :: "agent \<Rightarrow> agent" where
  "lca_frame s = s\<lparr>lane_change_mode := False, last_lane := None\<rparr>"

definition pid_frame :: "agent \<Rightarrow> agent" where
  "pid_frame s = s\<lparr>min_distance := None, target_waypoint := None\<rparr>"

definition step_frame :: "agent \<Rightarrow> agent" where
  "step_frame s = s\<lparr>autopilot_step := 0, last_traffic_light := None, lights_map := Map.empty,
     lane_change_mode := False, last_lane := None, min_distance := None,
     target_waypoint := None\<rparr>"

subsection \<open>Concrete inputs\<close>

text \<open>A small world used to run the model: the vehicle sits on the lane center, no traffic
  light is known, and the PID controller answers a fixed command. \<open>value0\<close> is an encoding
  of \<open>Action.value\<close> under which a left change from lane \<open>-2\<close> targets lane \<open>-1\<close>.\<close>

definition wp0 :: waypoint where
  "wp0 = \<lparr>wp_location = (0, 0, 0), wp_road_id = 1, wp_forward = (1, 0, 0)\<rparr>"

definition raw0 :: raw_control where
  "raw0 = \<lparr>raw_throttle = 1 / 2, raw_brake = 0, raw_steer = 1 / 4, raw_gear = 1\<rparr>"

definition world0 :: world where
  "world0 = \<lparr>vehicle_speed = 0, veh_location = (0, 0, 0), lane_center = wp0,
     ego_waypoint = wp0, loc_distance = (\<lambda>a b. \<bar>fst a - fst b\<bar>), world_lights = [],
     light_state = (\<lambda>l. Green), trigger_waypoint = (\<lambda>l. wp0),
     is_within_distance = (\<lambda>wp d. True), pid_controller = (\<lambda>v wp. raw0),
     random_draw = 0\<rparr>"

definition value0 :: "Action \<Rightarrow> int" where
  "value0 a = (case a of LANE_FOLLOW \<Rightarrow> 0 | LANE_CHANGE_LEFT \<Rightarrow> - 1 | LANE_CHANGE_RIGHT \<Rightarrow> 1)"

text \<open>Perception with long buffers on every side, and perception whose side buffers are
  empty.\<close>

definition info_full :: info_dict where
  "info_full = \<lparr>info_left_wps = replicate 20 wp0, info_center_wps = replicate 20 wp0,
     info_right_wps = replicate 20 wp0, info_left_rear_wps = [], info_center_rear_wps = [],
     info_right_rear_wps = [], distance_to_front_vehicles = (100, 100, 100),
     distance_to_rear_vehicles = (100, 100, 100)\<rparr>"

definition info_no_sides :: info_dict where
  "info_no_sides = info_full\<lparr>info_left_wps := [], info_right_wps := []\<rparr>"

definition tick0 :: "info_dict \<Rightarrow> int \<Rightarrow> int \<Rightarrow> Action \<Rightarrow> tick" where
  "tick0 info cl ltl la = \<lparr>tick_info = info, tick_world = world0, current_lane = cl,
     last_target_lane = ltl, last_action = la, modify_change_steer = False\<rparr>"

text \<open>An agent under the gap-based policy after a perception update in which both
  neighbour lanes have a front gap well above the one ahead.\<close>

definition info_gap :: info_dict where
  "info_gap = info_full\<lparr>distance_to_front_vehicles := (20, 5, 30),
     distance_to_rear_vehicles := (10, 10, 10)\<rparr>"

definition gap_agent :: agent where
  "gap_agent = set_info (init (default_opts\<lparr>opt_random_lane_change := Some False\<rparr>)) info_gap"

text \<open>The buffer \<open>_pid_run_step\<close> indexes for an action, and the constant it adds to
  \<open>next_wp\<close> before subtracting one (lines 355 to 366).\<close>

definition selected_wps :: "agent \<Rightarrow> Action \<Rightarrow> waypoint list" where
  "selected_wps s a =
     (case a of LANE_CHANGE_LEFT \<Rightarrow> left_wps s
      | LANE_FOLLOW \<Rightarrow> center_wps s
      | LANE_CHANGE_RIGHT \<Rightarrow> right_wps s)"

definition base_index :: "Action \<Rightarrow> int" where
  "base_index a =
     (case a of LANE_CHANGE_LEFT \<Rightarrow> 15 | LANE_FOLLOW \<Rightarrow> 2 | LANE_CHANGE_RIGHT \<Rightarrow> 15)"

definition pre_frame :: "agent \<Rightarrow> agent" where
  "pre_frame s = s\<lparr>autopilot_step := 0, last_traffic_light := None, lights_map := Map.empty\<rparr>"

text \<open>The value of \<open>affected_by_tlight\<close> in \<open>run_step\<close>.\<close>

definition light_hazard :: "world \<Rightarrow> agent \<Rightarrow> bool" where
  "light_hazard w s =
     fst (fst (affected_by_traffic_light w s (Some (world_lights w))
                 (Some (max_tlight_distance s w))))"

text \<open>Perception whose center buffer holds two waypoints only, and a world with one red
  light (actor id 7) ahead of the vehicle.\<close>

definition info_short :: info_dict where
  "info_short = info_full\<lparr>info_center_wps := [wp0, wp0]\<rparr>"

definition short_agent :: agent where
  "short_agent = set_info (init default_opts) info_short"

definition world_red :: world where
  "world_red = world0\<lparr>world_lights := [7], light_state := (\<lambda>l. Red)\<rparr>"

text \<open>The list and the distance \<open>_affected_by_traffic_light\<close> works with after replacing
  false arguments (lines 499 to 503).\<close>

definition effective_lights :: "world \<Rightarrow> int list option \<Rightarrow> int list" where
  "effective_lights w lights_list =
     (case lights_list of None \<Rightarrow> world_lights w
      | Some ls \<Rightarrow> if ls = [] then world_lights w else ls)"

definition effective_distance :: "agent \<Rightarrow> real option \<Rightarrow> real" where
  "effective_distance s max_distance =
     (case max_distance of None \<Rightarrow> base_tlight_threshold s
      | Some d \<Rightarrow> if d = 0 then base_tlight_threshold s else d)"

text \<open>The agent after the detector has met the red light of \<open>world_red\<close>.\<close>

definition cached_agent :: agent where
  "cached_agent =
     snd (affected_by_traffic_light world_red gap_agent (Some (world_lights world_red))
            (Some (max_tlight_distance gap_agent world_red)))"

text \<open>The maneuver decisions of a sequence of ticks: the result of \<open>_lane_change_action\<close> on
  the agent as the perception update of each tick leaves it.\<close>

fun decisions ::
  "(Action \<Rightarrow> int) \<Rightarrow> agent \<Rightarrow> tick list \<Rightarrow> (py_error + Action \<times> int) list" where
  "decisions av s [] = []"
| "decisions av s (t # ts) =
     fst (lane_change_action av (tick_world t) (set_info s (tick_info t)) (current_lane t)
            (last_target_lane t) (last_action t))
     # decisions av (snd (agent_tick av s t)) ts"

text \<open>While a change is in progress the recorded lane is one of the three lanes.\<close>

definition lane_inv :: "agent \<Rightarrow> bool" where
  "lane_inv s =
     (lane_change_mode s \<longrightarrow>
        last_lane s = Some (- 1) \<or> last_lane s = Some (- 2) \<or> last_lane s = Some (- 3))"

definition choices_inv :: "agent \<Rightarrow> bool" where
  "choices_inv s =
     (left_random_change s \<noteq> [] \<and> center_random_change s \<noteq> []
      \<and> right_random_change s \<noteq> [])"

text \<open>A run under the gap-based policy from construction: the first tick records lane
  \<open>-2\<close>, the second starts a left change. \<open>info_gap_no_left\<close> is the same perception with an
  empty left front buffer.\<close>

definition gap_init :: agent where
  "gap_init = init (default_opts\<lparr>opt_random_lane_change := Some False\<rparr>)"

definition info_gap_no_left :: info_dict where
  "info_gap_no_left = info_gap\<lparr>info_left_wps := []\<rparr>"

definition start_ticks :: "tick list" where
  "start_ticks = [tick0 info_gap (- 2) (- 2) LANE_FOLLOW, tick0 info_gap (- 2) (- 2) LANE_FOLLOW]"

definition recorded_agent :: agent where
  "recorded_agent = agent_after value0 gap_init [tick0 info_gap (- 2) (- 2) LANE_FOLLOW]"

text \<open>The calling convention of \<open>run_step\<close>: every tick passes as \<open>last_action\<close> and
  \<open>last_target_lane\<close> the action and the target lane that the latest returning tick gave
  back, starting from \<open>prev\<close>. The caller is outside this file; the convention is a premise
  of the commitment property.\<close>

fun fed_back ::
  "Action \<times> int \<Rightarrow> tick list \<Rightarrow> (py_error + ControlInfo \<times> int \<times> Action) list \<Rightarrow> bool" where
  "fed_back prev (t # ts) (r # rs) =
     (last_action t = fst prev \<and> last_target_lane t = snd prev
      \<and> fed_back (case r of Inl e \<Rightarrow> prev | Inr res \<Rightarrow> (snd (snd res), fst (snd res))) ts rs)"
| "fed_back prev ts rs = True"

section \<open>Properties\<close>

subsection \<open>What each method leaves alone\<close>

lemma scan_lights_frame: "tl_frame (snd (scan_lights w md s ls)) = tl_frame s"
proof (induction ls arbitrary: s)
  case Nil
  show ?case by simp
next
  case (Cons l ls)
  have 1: "tl_frame (snd (scan_lights w md s ls)) = tl_frame s"
    by (rule Cons.IH)
  have 2: "tl_frame (snd (scan_lights w md (s\<lparr>lights_map := m\<rparr>) ls)) = tl_frame s" for m
    using Cons.IH [of "s\<lparr>lights_map := m\<rparr>"] by (simp add: tl_frame_def)
  have 3: "tl_frame (s\<lparr>lights_map := m, last_traffic_light := x\<rparr>) = tl_frame s" for m x
    by (simp add: tl_frame_def)
  have 4: "tl_frame (s\<lparr>last_traffic_light := x\<rparr>) = tl_frame s" for x
    by (simp add: tl_frame_def)
  show ?case
    by (simp add: Let_def 1 2 3 4 split: option.splits)
qed

lemma affected_by_traffic_light_frame:
  "tl_frame (snd (affected_by_traffic_light w s ls md)) = tl_frame s"
proof -
  have "tl_frame (snd (scan_lights w d (s\<lparr>last_traffic_light := None\<rparr>) l)) = tl_frame s" for d l
    using scan_lights_frame [of w d "s\<lparr>last_traffic_light := None\<rparr>" l]
    by (simp add: tl_frame_def)
  then show ?thesis
    by (simp add: affected_by_traffic_light_def Let_def scan_lights_frame split: option.splits)
qed

lemma lane_change_action_frame:
  "lca_frame (snd (lane_change_action av w s cl ltl la)) = lca_frame s"
  by (simp add: lane_change_action_def lca_frame_def Let_def split: sum.splits)

lemma pid_run_step_frame: "pid_frame (snd (pid_run_step w s a)) = pid_frame s"
  by (simp add: pid_run_step_def pid_frame_def Let_def split: sum.splits)

lemma step_frame_tl: "tl_frame a = tl_frame b \<Longrightarrow> step_frame a = step_frame b"
proof -
  assume h: "tl_frame a = tl_frame b"
  have "step_frame a = step_frame (tl_frame a)" by (simp add: step_frame_def tl_frame_def)
  also have "\<dots> = step_frame (tl_frame b)" by (simp add: h)
  also have "\<dots> = step_frame b" by (simp add: step_frame_def tl_frame_def)
  finally show ?thesis .
qed

lemma step_frame_lca: "lca_frame a = lca_frame b \<Longrightarrow> step_frame a = step_frame b"
proof -
  assume h: "lca_frame a = lca_frame b"
  have "step_frame a = step_frame (lca_frame a)" by (simp add: step_frame_def lca_frame_def)
  also have "\<dots> = step_frame (lca_frame b)" by (simp add: h)
  also have "\<dots> = step_frame b" by (simp add: step_frame_def lca_frame_def)
  finally show ?thesis .
qed

lemma step_frame_pid: "pid_frame a = pid_frame b \<Longrightarrow> step_frame a = step_frame b"
proof -
  assume h: "pid_frame a = pid_frame b"
  have "step_frame a = step_frame (pid_frame a)" by (simp add: step_frame_def pid_frame_def)
  also have "\<dots> = step_frame (pid_frame b)" by (simp add: h)
  also have "\<dots> = step_frame b" by (simp add: step_frame_def pid_frame_def)
  finally show ?thesis .
qed

lemma run_step_frame:
  "step_frame (snd (run_step av w s cl ltl la m)) = step_frame s"
proof -
  let ?s0 = "s\<lparr>autopilot_step := autopilot_step s + 1\<rparr>"
  let ?s1 = "snd (affected_by_traffic_light w ?s0 (Some (world_lights w))
                      (Some (max_tlight_distance ?s0 w)))"
  let ?s2 = "snd (lane_change_action av w ?s1 cl ltl la)"
  have 0: "step_frame ?s0 = step_frame s" by (simp add: step_frame_def)
  have 1: "step_frame ?s1 = step_frame s"
    using step_frame_tl [OF affected_by_traffic_light_frame] 0 by simp
  have 2: "step_frame ?s2 = step_frame s"
    using step_frame_lca [OF lane_change_action_frame] 1 by simp
  have 3: "step_frame (snd (pid_run_step w ?s2 a)) = step_frame s" for a
    using step_frame_pid [OF pid_run_step_frame] 2 by simp
  show ?thesis
    by (simp add: run_step_def Let_def 0 1 2 3 split: sum.splits)
qed

lemma run_step_enable:
  "enable_left_change (snd (run_step av w s cl ltl la m)) = enable_left_change s"
  "enable_right_change (snd (run_step av w s cl ltl la m)) = enable_right_change s"
  "ignore_change_gap (snd (run_step av w s cl ltl la m)) = ignore_change_gap s"
proof -
  have e: "enable_left_change x = enable_left_change (step_frame x)"
    "enable_right_change x = enable_right_change (step_frame x)"
    "ignore_change_gap x = ignore_change_gap (step_frame x)" for x
    by (simp_all add: step_frame_def)
  show "enable_left_change (snd (run_step av w s cl ltl la m)) = enable_left_change s"
    "enable_right_change (snd (run_step av w s cl ltl la m)) = enable_right_change s"
    "ignore_change_gap (snd (run_step av w s cl ltl la m)) = ignore_change_gap s"
    using run_step_frame [of av w s cl ltl la m] e by metis+
qed

subsection \<open>Enablement flags\<close>

lemma set_info_ignore_change_gap: "ignore_change_gap (set_info s info) = ignore_change_gap s"
  by (simp add: set_info_def Let_def)

lemma set_info_enable_left:
  "enable_left_change (set_info s info) =
     (if ignore_change_gap s then enable_left_change s \<or> info_left_wps info \<noteq> []
      else info_left_wps info \<noteq> [])"
  by (simp add: set_info_def Let_def)

lemma set_info_enable_right:
  "enable_right_change (set_info s info) =
     (if ignore_change_gap s then enable_right_change s \<or> info_right_wps info \<noteq> []
      else info_right_wps info \<noteq> [])"
  by (simp add: set_info_def Let_def)

lemma agent_after_ignore_change_gap:
  "ignore_change_gap (agent_after av s ts) = ignore_change_gap s"
  by (induction ts arbitrary: s)
     (simp_all add: agent_tick_def run_step_enable set_info_ignore_change_gap)

lemma agent_after_sticky_left:
  "ignore_change_gap s \<Longrightarrow> enable_left_change s \<Longrightarrow> enable_left_change (agent_after av s ts)"
  by (induction ts arbitrary: s)
     (simp_all add: agent_tick_def run_step_enable set_info_ignore_change_gap
        set_info_enable_left)

lemma agent_after_sticky_right:
  "ignore_change_gap s \<Longrightarrow> enable_right_change s \<Longrightarrow> enable_right_change (agent_after av s ts)"
  by (induction ts arbitrary: s)
     (simp_all add: agent_tick_def run_step_enable set_info_ignore_change_gap
        set_info_enable_right)

text \<open>
  C10. With \<open>ignore_change_gap\<close> set, \<open>set_info\<close> only ever raises a flag: the new flag is
  the old one or "the side's front buffer is not empty", so a flag that is true stays true
  through every later tick (perception update followed by \<open>run_step\<close>), whatever the
  buffers hold. With \<open>ignore_change_gap\<close> clear, after any number of ticks an update sets
  each flag to "the side's front buffer is not empty".
\<close>

theorem set_info_enablement:
  "(ignore_change_gap s \<longrightarrow>
      (enable_left_change (set_info s info)
         = (enable_left_change s \<or> info_left_wps info \<noteq> []))
      \<and> (enable_right_change (set_info s info)
         = (enable_right_change s \<or> info_right_wps info \<noteq> []))
      \<and> (enable_left_change s \<longrightarrow> enable_left_change (agent_after av s ts))
      \<and> (enable_right_change s \<longrightarrow> enable_right_change (agent_after av s ts)))
   \<and> (\<not> ignore_change_gap s \<longrightarrow>
      (enable_left_change (set_info (agent_after av s ts) info)
         = (info_left_wps info \<noteq> []))
      \<and> (enable_right_change (set_info (agent_after av s ts) info)
         = (info_right_wps info \<noteq> [])))"
  by (simp add: set_info_enable_left set_info_enable_right agent_after_ignore_change_gap
        agent_after_sticky_left agent_after_sticky_right)

lemma init_flags:
  "ignore_change_gap (init od) = opt_or (opt_ignore_change_gap od) False"
  "enable_left_change (init od)" "enable_right_change (init od)"
  by (simp_all add: init_def init_random_change_def Let_def)

theorem set_info_enablement_witness:
  "ignore_change_gap (init (default_opts\<lparr>opt_ignore_change_gap := Some True\<rparr>))
   \<and> enable_left_change (init (default_opts\<lparr>opt_ignore_change_gap := Some True\<rparr>))
   \<and> enable_right_change (init (default_opts\<lparr>opt_ignore_change_gap := Some True\<rparr>))
   \<and> enable_left_change
        (agent_after value0 (init (default_opts\<lparr>opt_ignore_change_gap := Some True\<rparr>))
           [tick0 info_no_sides (- 2) (- 2) LANE_FOLLOW])
   \<and> enable_right_change
        (agent_after value0 (init (default_opts\<lparr>opt_ignore_change_gap := Some True\<rparr>))
           [tick0 info_no_sides (- 2) (- 2) LANE_FOLLOW])
   \<and> \<not> ignore_change_gap (init default_opts)
   \<and> \<not> enable_left_change (set_info (agent_after value0 (init default_opts) []) info_no_sides)
   \<and> enable_right_change (set_info (agent_after value0 (init default_opts) []) info_full)"
  using set_info_enablement [of "init (default_opts\<lparr>opt_ignore_change_gap := Some True\<rparr>)"
      info_no_sides value0 "[tick0 info_no_sides (- 2) (- 2) LANE_FOLLOW]"]
    set_info_enablement [of "init default_opts" info_no_sides value0 "[]"]
    set_info_enablement [of "init default_opts" info_full value0 "[]"]
  by (simp add: init_flags default_opts_def opt_or_def info_no_sides_def info_full_def)

subsection \<open>The gap-based policy\<close>

lemma gap_ok_Some:
  "gap_ok (Some a) (Some b) (Some c) = Inr (a - b > 5 \<and> c > 1)"
  by (simp add: gap_ok_def gap_exceeds_def exceeds_def split: bool.splits)

lemma random_choice_pair:
  "random_choice r [a, b] = Inr (if even r then a else b)"
proof (cases "even r")
  case True
  then have "r mod Suc (Suc 0) = 0" by presburger
  then show ?thesis using True by (simp add: random_choice_def)
next
  case False
  then have "r mod Suc (Suc 0) = Suc 0" by presburger
  then show ?thesis using False by (simp add: random_choice_def)
qed

lemma random_choice_single: "random_choice r [a] = Inr a"
  by (simp add: random_choice_def)

lemma set_info_distances:
  "distance_to_left_front (set_info s info) = Some (fst (distance_to_front_vehicles info))"
  "distance_to_center_front (set_info s info)
     = Some (fst (snd (distance_to_front_vehicles info)))"
  "distance_to_right_front (set_info s info)
     = Some (snd (snd (distance_to_front_vehicles info)))"
  "distance_to_left_rear (set_info s info) = Some (fst (distance_to_rear_vehicles info))"
  "distance_to_center_rear (set_info s info)
     = Some (fst (snd (distance_to_rear_vehicles info)))"
  "distance_to_right_rear (set_info s info)
     = Some (snd (snd (distance_to_rear_vehicles info)))"
  by (simp_all add: set_info_def Let_def)

lemma set_info_buffers:
  "left_wps (set_info s info) = info_left_wps info"
  "center_wps (set_info s info) = info_center_wps info"
  "right_wps (set_info s info) = info_right_wps info"
  by (simp_all add: set_info_def Let_def)

lemma set_info_config:
  "random_lane_change (set_info s info) = random_lane_change s"
  "ignore_vehicle (set_info s info) = ignore_vehicle s"
  "ignore_traffic_lights (set_info s info) = ignore_traffic_lights s"
  "base_vehicle_threshold (set_info s info) = base_vehicle_threshold s"
  "base_tlight_threshold (set_info s info) = base_tlight_threshold s"
  "base_min_distance (set_info s info) = base_min_distance s"
  "max_brake (set_info s info) = max_brake s"
  "target_speed (set_info s info) = target_speed s"
  "lane_change_mode (set_info s info) = lane_change_mode s"
  "last_lane (set_info s info) = last_lane s"
  "last_traffic_light (set_info s info) = last_traffic_light s"
  "lights_map (set_info s info) = lights_map s"
  "left_random_change (set_info s info) = left_random_change s"
  "center_random_change (set_info s info) = center_random_change s"
  "right_random_change (set_info s info) = right_random_change s"
  by (simp_all add: set_info_def Let_def)

lemma init_config:
  "random_lane_change (init od) = opt_or (opt_random_lane_change od) True"
  "ignore_vehicle (init od) = opt_or (opt_ignore_front_vehicle od) False"
  "ignore_traffic_lights (init od) = opt_or (opt_ignore_traffic_lights od) False"
  "base_vehicle_threshold (init od) = opt_or (opt_base_vehicle_threshold od) 10"
  "base_tlight_threshold (init od) = opt_or (opt_base_tlight_threshold od) 5"
  "base_min_distance (init od) = 3"
  "max_brake (init od) = opt_or (opt_max_brake od) (3 / 10)"
  "target_speed (init od) = opt_or (opt_target_speed od) 20"
  "lane_change_mode (init od) = False"
  "last_lane (init od) = None"
  "last_traffic_light (init od) = None"
  "lights_map (init od) = Map.empty"
  by (simp_all add: init_def init_random_change_def Let_def)

text \<open>
  C7. Under the gap-based policy (\<open>random_lane_change\<close> false), with the six distances set,
  the candidate computed before gating is a left change only if the left front gap exceeds
  the front gap of the current lane by more than 5 and the left rear gap exceeds 1, and
  only from lane \<open>-2\<close> (center) or \<open>-3\<close> (right edge); symmetrically for a right change,
  only from lane \<open>-2\<close> or \<open>-1\<close> (left edge). From the center lane every qualifying
  direction is in the choice list and the draw decides between two; from an edge lane the
  candidate is the center-ward change when it qualifies and \<open>LANE_FOLLOW\<close> otherwise.
\<close>

theorem gap_policy_candidate:
  assumes "\<not> random_lane_change s"
    and "distance_to_left_front s = Some lf"
    and "distance_to_center_front s = Some cf"
    and "distance_to_right_front s = Some rf"
    and "distance_to_left_rear s = Some lr"
    and "distance_to_right_rear s = Some rr"
  shows "\<exists>c. lane_change_candidate w s cl = Inr c
    \<and> (c = LANE_CHANGE_LEFT \<longrightarrow> lf - cf > 5 \<and> lr > 1 \<and> (cl = - 2 \<or> cl = - 3))
    \<and> (c = LANE_CHANGE_RIGHT \<longrightarrow> rf - cf > 5 \<and> rr > 1 \<and> (cl = - 2 \<or> cl = - 1))
    \<and> (cl = - 2 \<longrightarrow>
          c = (if lf - cf > 5 \<and> lr > 1 then
                 (if rf - cf > 5 \<and> rr > 1
                  then (if even (random_draw w) then LANE_CHANGE_LEFT else LANE_CHANGE_RIGHT)
                  else LANE_CHANGE_LEFT)
               else if rf - cf > 5 \<and> rr > 1 then LANE_CHANGE_RIGHT else LANE_FOLLOW))
    \<and> (cl = - 1 \<longrightarrow> c = (if rf - cf > 5 \<and> rr > 1 then LANE_CHANGE_RIGHT else LANE_FOLLOW))
    \<and> (cl = - 3 \<longrightarrow> c = (if lf - cf > 5 \<and> lr > 1 then LANE_CHANGE_LEFT else LANE_FOLLOW))"
  using assms
  by (simp add: lane_change_candidate_def change_choice_def gap_ok_Some
        random_choice_pair random_choice_single)

lemma gap_agent_fields:
  "\<not> random_lane_change gap_agent"
  "distance_to_left_front gap_agent = Some 20"
  "distance_to_center_front gap_agent = Some 5"
  "distance_to_right_front gap_agent = Some 30"
  "distance_to_left_rear gap_agent = Some 10"
  "distance_to_right_rear gap_agent = Some 10"
  by (simp_all add: gap_agent_def set_info_distances set_info_config init_config
        default_opts_def opt_or_def info_gap_def info_full_def)

theorem gap_policy_candidate_witness:
  "\<not> random_lane_change gap_agent
   \<and> distance_to_left_front gap_agent = Some 20
   \<and> distance_to_center_front gap_agent = Some 5
   \<and> distance_to_right_front gap_agent = Some 30
   \<and> distance_to_left_rear gap_agent = Some 10
   \<and> distance_to_right_rear gap_agent = Some 10
   \<and> lane_change_candidate world0 gap_agent (- 2) = Inr LANE_CHANGE_LEFT
   \<and> lane_change_candidate world0 gap_agent (- 1) = Inr LANE_CHANGE_RIGHT"
  using gap_policy_candidate [OF gap_agent_fields, of world0 "- 2"]
    gap_policy_candidate [OF gap_agent_fields, of world0 "- 1"]
  by (auto simp add: gap_agent_fields world0_def)

subsection \<open>The vehicle hazard\<close>

text \<open>
  C6. With the front-center distance set, the detector called with the threshold of
  \<open>run_step\<close> reports a hazard iff \<open>ignore_vehicle\<close> is clear and the distance is strictly
  below the base vehicle threshold plus the speed; for one agent, a higher speed gives a
  strictly larger threshold. (Floats are read as reals.)
\<close>

theorem vehicle_hazard_rule:
  "(distance_to_center_front s = Some d \<longrightarrow>
      vehicle_obstacle_detected s (max_vehicle_distance s w)
        = Inr (\<not> ignore_vehicle s \<and> d < base_vehicle_threshold s + vehicle_speed w))
   \<and> (vehicle_speed w < vehicle_speed w' \<longrightarrow>
      max_vehicle_distance s w < max_vehicle_distance s w')"
  by (auto simp add: vehicle_obstacle_detected_def max_vehicle_distance_def)

lemma gap_agent_config:
  "\<not> ignore_vehicle gap_agent" "base_vehicle_threshold gap_agent = 10"
  "\<not> ignore_traffic_lights gap_agent" "max_brake gap_agent = 3 / 10"
  "base_min_distance gap_agent = 3" "target_speed gap_agent = 20"
  by (simp_all add: gap_agent_def set_info_config init_config default_opts_def opt_or_def)

theorem vehicle_hazard_rule_witness:
  "distance_to_center_front gap_agent = Some 5
   \<and> vehicle_obstacle_detected gap_agent (max_vehicle_distance gap_agent world0) = Inr True
   \<and> vehicle_speed world0 < vehicle_speed (world0\<lparr>vehicle_speed := 10\<rparr>)
   \<and> max_vehicle_distance gap_agent world0
       < max_vehicle_distance gap_agent (world0\<lparr>vehicle_speed := 10\<rparr>)"
  using vehicle_hazard_rule [of gap_agent 5 world0 "world0\<lparr>vehicle_speed := 10\<rparr>"]
  by (simp add: gap_agent_fields gap_agent_config max_vehicle_distance_def world0_def)

subsection \<open>Look-ahead and target waypoint\<close>

lemma next_wp_of_two_values: "next_wp_of d = (if d > 1 then 2 else 1)"
  by (simp add: next_wp_of_def)

lemma next_wp_of_range: "1 \<le> next_wp_of d" "next_wp_of d \<le> 2"
  by (simp_all add: next_wp_of_def)

text \<open>
  C4. The adjusted distance is the base distance times \<open>1 - offset / 4\<close>, but the index
  offset is not the four-way mapping: with the vehicle on the lane center and the default
  base distance the adjusted distance is 3 and \<open>next_wp\<close> is 2, where the mapping of the
  claim gives 3. The branches for "greater than 2" and "greater than 3" come after the
  branch for "greater than 1" in the \<open>if\<close>/\<open>elif\<close> chain and are never taken.
\<close>

theorem next_wp_at_lane_center:
  "adjusted_min_distance world0 (init default_opts) = 3
   \<and> adjusted_min_distance world0 (init default_opts)
       = base_min_distance (init default_opts)
           * (1 - loc_distance world0 (wp_location (lane_center world0)) (veh_location world0) / 4)
   \<and> next_wp_of (adjusted_min_distance world0 (init default_opts)) = 2"
  by (simp add: adjusted_min_distance_def Let_def init_config next_wp_of_def world0_def
        wp0_def)

lemma list_item_short:
  "0 \<le> i \<Longrightarrow> int (length xs) \<le> i \<Longrightarrow> list_item xs i = Inl IndexError"
  by (simp add: list_item_def)

lemma pid_run_step_short:
  assumes "int (length (selected_wps s a)) < next_wp_of (adjusted_min_distance w s) + base_index a"
  shows "fst (pid_run_step w s a) = Inl IndexError"
proof -
  let ?n = "next_wp_of (adjusted_min_distance w s)"
  have n: "1 \<le> ?n" by (rule next_wp_of_range)
  show ?thesis
  proof (cases a)
    case LANE_FOLLOW
    then have "list_item (center_wps s) (?n + 2 - 1) = Inl IndexError"
      using assms n by (intro list_item_short) (simp_all add: selected_wps_def base_index_def)
    then show ?thesis using LANE_FOLLOW by (simp add: pid_run_step_def Let_def)
  next
    case LANE_CHANGE_LEFT
    then have "list_item (left_wps s) (?n + 15 - 1) = Inl IndexError"
      using assms n by (intro list_item_short) (simp_all add: selected_wps_def base_index_def)
    then show ?thesis using LANE_CHANGE_LEFT by (simp add: pid_run_step_def Let_def)
  next
    case LANE_CHANGE_RIGHT
    then have "list_item (right_wps s) (?n + 15 - 1) = Inl IndexError"
      using assms n by (intro list_item_short) (simp_all add: selected_wps_def base_index_def)
    then show ?thesis using LANE_CHANGE_RIGHT by (simp add: pid_run_step_def Let_def)
  qed
qed

lemma step_frame_fields:
  assumes "step_frame x = step_frame s"
  shows "selected_wps x a = selected_wps s a"
    and "adjusted_min_distance w x = adjusted_min_distance w s"
    and "distance_to_center_front x = distance_to_center_front s"
    and "ignore_vehicle x = ignore_vehicle s"
    and "base_vehicle_threshold x = base_vehicle_threshold s"
    and "base_tlight_threshold x = base_tlight_threshold s"
    and "max_brake x = max_brake s"
    and "target_speed x = target_speed s"
    and "enable_left_change x = enable_left_change s"
    and "enable_right_change x = enable_right_change s"
proof -
  have e: "selected_wps y a = selected_wps (step_frame y) a"
    "adjusted_min_distance w y = adjusted_min_distance w (step_frame y)"
    "distance_to_center_front y = distance_to_center_front (step_frame y)"
    "ignore_vehicle y = ignore_vehicle (step_frame y)"
    "base_vehicle_threshold y = base_vehicle_threshold (step_frame y)"
    "base_tlight_threshold y = base_tlight_threshold (step_frame y)"
    "max_brake y = max_brake (step_frame y)"
    "target_speed y = target_speed (step_frame y)"
    "enable_left_change y = enable_left_change (step_frame y)"
    "enable_right_change y = enable_right_change (step_frame y)" for y
    by (simp_all add: step_frame_def selected_wps_def adjusted_min_distance_def Let_def
          split: Action.splits)
  show "selected_wps x a = selected_wps s a"
    using e(1) [of x] e(1) [of s] assms by simp
  show "adjusted_min_distance w x = adjusted_min_distance w s"
    using e(2) [of x] e(2) [of s] assms by simp
  show "distance_to_center_front x = distance_to_center_front s"
    using e(3) [of x] e(3) [of s] assms by simp
  show "ignore_vehicle x = ignore_vehicle s"
    using e(4) [of x] e(4) [of s] assms by simp
  show "base_vehicle_threshold x = base_vehicle_threshold s"
    using e(5) [of x] e(5) [of s] assms by simp
  show "base_tlight_threshold x = base_tlight_threshold s"
    using e(6) [of x] e(6) [of s] assms by simp
  show "max_brake x = max_brake s"
    using e(7) [of x] e(7) [of s] assms by simp
  show "target_speed x = target_speed s"
    using e(8) [of x] e(8) [of s] assms by simp
  show "enable_left_change x = enable_left_change s"
    using e(9) [of x] e(9) [of s] assms by simp
  show "enable_right_change x = enable_right_change s"
    using e(10) [of x] e(10) [of s] assms by simp
qed

subsection \<open>The outcome of \<open>run_step\<close> in terms of its parts\<close>

lemma scan_lights_lights_map:
  "lights_map x = lights_map s \<Longrightarrow>
     fst (scan_lights w md x ls) = fst (scan_lights w md s ls)"
proof (induction ls arbitrary: x s)
  case Nil
  show ?case by simp
next
  case (Cons l ls)
  have 1: "fst (scan_lights w md x ls) = fst (scan_lights w md s ls)"
    using Cons.IH [OF Cons.prems] .
  have 2: "fst (scan_lights w md (x\<lparr>lights_map := m\<rparr>) ls)
             = fst (scan_lights w md (s\<lparr>lights_map := m\<rparr>) ls)" for m
    by (rule Cons.IH) simp
  show ?case
    by (simp add: Let_def 1 2 Cons.prems split: option.splits)
qed

lemma affected_by_traffic_light_autopilot:
  "fst (affected_by_traffic_light w (s\<lparr>autopilot_step := n\<rparr>) ls md)
     = fst (affected_by_traffic_light w s ls md)"
proof -
  have 1: "fst (scan_lights w d (s\<lparr>autopilot_step := n, last_traffic_light := None\<rparr>) l)
             = fst (scan_lights w d (s\<lparr>last_traffic_light := None\<rparr>) l)" for d l
    by (rule scan_lights_lights_map) simp
  have 2: "fst (scan_lights w d (s\<lparr>autopilot_step := n\<rparr>) l) = fst (scan_lights w d s l)"
    for d l
    by (rule scan_lights_lights_map) simp
  show ?thesis
    by (simp add: affected_by_traffic_light_def Let_def 1 2 split: option.splits)
qed

lemma pre_frame_tl: "tl_frame a = tl_frame b \<Longrightarrow> pre_frame a = pre_frame b"
proof -
  assume h: "tl_frame a = tl_frame b"
  have "pre_frame a = pre_frame (tl_frame a)" by (simp add: pre_frame_def tl_frame_def)
  also have "\<dots> = pre_frame (tl_frame b)" by (simp add: h)
  also have "\<dots> = pre_frame b" by (simp add: pre_frame_def tl_frame_def)
  finally show ?thesis .
qed

lemma pre_frame_run_step_stage:
  "pre_frame (snd (affected_by_traffic_light w (s\<lparr>autopilot_step := n\<rparr>) ls md)) = pre_frame s"
proof -
  have "pre_frame (snd (affected_by_traffic_light w (s\<lparr>autopilot_step := n\<rparr>) ls md))
          = pre_frame (s\<lparr>autopilot_step := n\<rparr>)"
    by (rule pre_frame_tl [OF affected_by_traffic_light_frame])
  then show ?thesis by (simp add: pre_frame_def)
qed

lemma lane_change_candidate_pre:
  "lane_change_candidate w x cl = lane_change_candidate w (pre_frame x) cl"
proof -
  have "change_choice (pre_frame x) = change_choice x"
    by (simp add: change_choice_def pre_frame_def split: sum.splits)
  then show ?thesis
    by (simp add: lane_change_candidate_def pre_frame_def split: sum.splits)
qed

lemma lane_change_action_pre:
  "fst (lane_change_action av w x cl ltl la)
     = fst (lane_change_action av w (pre_frame x) cl ltl la)"
  "lane_change_mode (snd (lane_change_action av w x cl ltl la))
     = lane_change_mode (snd (lane_change_action av w (pre_frame x) cl ltl la))"
  "last_lane (snd (lane_change_action av w x cl ltl la))
     = last_lane (snd (lane_change_action av w (pre_frame x) cl ltl la))"
proof -
  have c: "lane_change_candidate w (pre_frame x) cl = lane_change_candidate w x cl"
    by (rule lane_change_candidate_pre [symmetric])
  have g: "gate (pre_frame x) a = gate x a" for a
    by (simp add: gate_def pre_frame_def)
  have f: "last_lane (pre_frame x) = last_lane x"
    "lane_change_mode (pre_frame x) = lane_change_mode x"
    by (simp_all add: pre_frame_def)
  show "fst (lane_change_action av w x cl ltl la)
     = fst (lane_change_action av w (pre_frame x) cl ltl la)"
    by (simp add: lane_change_action_def c g f Let_def split: sum.splits)
  show "lane_change_mode (snd (lane_change_action av w x cl ltl la))
     = lane_change_mode (snd (lane_change_action av w (pre_frame x) cl ltl la))"
    by (simp add: lane_change_action_def c g f Let_def split: sum.splits)
  show "last_lane (snd (lane_change_action av w x cl ltl la))
     = last_lane (snd (lane_change_action av w (pre_frame x) cl ltl la))"
    by (simp add: lane_change_action_def c g f Let_def split: sum.splits)
qed

lemma lane_change_action_cong:
  assumes "pre_frame x = pre_frame s"
  shows "fst (lane_change_action av w x cl ltl la) = fst (lane_change_action av w s cl ltl la)"
    and "lane_change_mode (snd (lane_change_action av w x cl ltl la))
           = lane_change_mode (snd (lane_change_action av w s cl ltl la))"
    and "last_lane (snd (lane_change_action av w x cl ltl la))
           = last_lane (snd (lane_change_action av w s cl ltl la))"
  using lane_change_action_pre [of av w x cl ltl la] lane_change_action_pre [of av w s cl ltl la]
    assms by simp_all

lemma pid_run_step_cong:
  assumes "step_frame x = step_frame s"
  shows "fst (pid_run_step w x a) = fst (pid_run_step w s a)"
proof -
  have e: "fst (pid_run_step w y a) = fst (pid_run_step w (step_frame y) a)" for y
    by (simp add: pid_run_step_def adjusted_min_distance_def step_frame_def Let_def
          split: sum.splits Action.splits)
  show ?thesis using e [of x] e [of s] assms by simp
qed

lemma add_emergency_stop_cong:
  "step_frame x = step_frame s \<Longrightarrow> add_emergency_stop x c = add_emergency_stop s c"
  using step_frame_fields(7) [of x s] by (simp add: add_emergency_stop_def)

lemma run_step_outcome:
  assumes "distance_to_center_front s = Some d"
  shows "fst (run_step av w s cl ltl la m) =
     (case fst (lane_change_action av w s cl ltl la) of
        Inl e \<Rightarrow> Inl e
      | Inr dec \<Rightarrow>
          (case fst (pid_run_step w s (fst dec)) of
             Inl e \<Rightarrow> Inl e
           | Inr control \<Rightarrow>
               Inr (if light_hazard w s
                       \<or> (fst dec = LANE_FOLLOW \<and> d < max_vehicle_distance s w
                            \<and> \<not> ignore_vehicle s)
                    then add_emergency_stop s (clamp_steer m (fst dec) control)
                    else clamp_steer m (fst dec) control,
                    snd dec, fst dec)))"
proof -
  let ?s0 = "s\<lparr>autopilot_step := autopilot_step s + 1\<rparr>"
  let ?tl = "affected_by_traffic_light w ?s0 (Some (world_lights w))
               (Some (max_tlight_distance ?s0 w))"
  let ?lca = "lane_change_action av w (snd ?tl) cl ltl la"
  have v: "vehicle_obstacle_detected ?s0 (max_vehicle_distance ?s0 w)
             = Inr (d < max_vehicle_distance s w \<and> \<not> ignore_vehicle s)"
    using assms by (simp add: vehicle_obstacle_detected_def max_vehicle_distance_def)
  have md: "max_tlight_distance ?s0 w = max_tlight_distance s w"
    by (simp add: max_tlight_distance_def)
  have h: "fst (fst ?tl) = light_hazard w s"
    unfolding light_hazard_def md by (simp add: affected_by_traffic_light_autopilot)
  have p1: "pre_frame (snd ?tl) = pre_frame s"
    by (rule pre_frame_run_step_stage)
  have l: "fst ?lca = fst (lane_change_action av w s cl ltl la)"
    by (rule lane_change_action_cong(1) [OF p1])
  have f1: "step_frame (snd ?tl) = step_frame s"
    using step_frame_tl [OF affected_by_traffic_light_frame, of w ?s0]
    by (simp add: step_frame_def)
  have f2: "step_frame (snd ?lca) = step_frame s"
    using step_frame_lca [OF lane_change_action_frame, of av w "snd ?tl" cl ltl la] f1
    by simp
  have p: "fst (pid_run_step w (snd ?lca) a) = fst (pid_run_step w s a)" for a
    by (rule pid_run_step_cong [OF f2])
  have f3: "step_frame (snd (pid_run_step w (snd ?lca) a)) = step_frame s" for a
    using step_frame_pid [OF pid_run_step_frame, of w "snd ?lca" a] f2 by simp
  have e: "add_emergency_stop (snd (pid_run_step w (snd ?lca) a)) c = add_emergency_stop s c"
    for a c
    by (rule add_emergency_stop_cong [OF f3])
  show ?thesis
    unfolding run_step_def Let_def v
    by (simp add: h l p e split: sum.splits)
qed

lemma run_step_type_error:
  "distance_to_center_front s = None \<Longrightarrow> fst (run_step av w s cl ltl la m) = Inl TypeError"
  by (simp add: run_step_def vehicle_obstacle_detected_def Let_def)

lemma run_step_decision:
  assumes "fst (run_step av w s cl ltl la m) = Inr (control, tgt, a)"
  shows "fst (lane_change_action av w s cl ltl la) = Inr (a, tgt)"
proof (cases "distance_to_center_front s")
  case None
  then show ?thesis using assms run_step_type_error [of s av w cl ltl la m] by simp
next
  case (Some d)
  show ?thesis
    using assms unfolding run_step_outcome [OF Some]
    by (auto split: sum.splits if_splits)
qed

subsection \<open>Running the model on the concrete inputs\<close>

lemma init_random_lists:
  "left_random_change (init od)
     = replicate (nat (opt_or (opt_lanechanging_fps od) 50)) LANE_FOLLOW @ [LANE_CHANGE_RIGHT]"
  "center_random_change (init od)
     = replicate (nat (opt_or (opt_lanechanging_fps od) 50)) LANE_FOLLOW
         @ [LANE_CHANGE_RIGHT, LANE_CHANGE_LEFT]"
  "right_random_change (init od)
     = replicate (nat (opt_or (opt_lanechanging_fps od) 50)) LANE_FOLLOW @ [LANE_CHANGE_LEFT]"
  by (simp_all add: init_def init_random_change_def Let_def)

lemma adjusted_min_distance_world0:
  "base_min_distance s = 3 \<Longrightarrow> adjusted_min_distance world0 s = 3"
  by (simp add: adjusted_min_distance_def Let_def world0_def wp0_def)

lemma adjusted_min_distance_world_red:
  "base_min_distance s = 3 \<Longrightarrow> adjusted_min_distance world_red s = 3"
  by (simp add: adjusted_min_distance_def Let_def world_red_def world0_def wp0_def)

lemma short_agent_fields:
  "distance_to_center_front short_agent = Some 100"
  "center_wps short_agent = [wp0, wp0]"
  "base_min_distance short_agent = 3"
  "last_lane short_agent = None"
  "random_lane_change short_agent"
  "center_random_change short_agent
     = replicate 50 LANE_FOLLOW @ [LANE_CHANGE_RIGHT, LANE_CHANGE_LEFT]"
  by (simp_all add: short_agent_def set_info_distances set_info_buffers set_info_config
        init_config init_random_lists default_opts_def opt_or_def info_short_def info_full_def)

lemma short_agent_decision:
  "fst (lane_change_action value0 world0 short_agent (- 2) (- 2) LANE_FOLLOW)
     = Inr (LANE_FOLLOW, - 2)"
  by (simp add: lane_change_action_def lane_change_candidate_def short_agent_fields
        random_choice_def truthy_lane_def Let_def)

text \<open>
  C8. When the buffer indexed for an action (left, center or right front buffer) is
  shorter than \<open>next_wp\<close> plus the base of the action (15 for a change, 2 for lane
  following), \<open>_pid_run_step\<close> raises \<open>IndexError\<close>; and \<open>run_step\<close>, once the vehicle check
  has passed and the maneuver decision is that action, raises \<open>IndexError\<close> to its caller
  instead of returning a command.
\<close>

theorem short_buffer_index_error:
  "(int (length (selected_wps s a)) < next_wp_of (adjusted_min_distance w s) + base_index a
      \<longrightarrow> fst (pid_run_step w s a) = Inl IndexError)
   \<and> (distance_to_center_front s = Some d
        \<and> fst (lane_change_action av w s cl ltl la) = Inr (a, tgt)
        \<and> int (length (selected_wps s a))
             < next_wp_of (adjusted_min_distance w s) + base_index a
      \<longrightarrow> fst (run_step av w s cl ltl la m) = Inl IndexError)"
proof (intro conjI impI)
  assume "int (length (selected_wps s a)) < next_wp_of (adjusted_min_distance w s) + base_index a"
  then show "fst (pid_run_step w s a) = Inl IndexError"
    by (rule pid_run_step_short)
next
  assume h: "distance_to_center_front s = Some d
        \<and> fst (lane_change_action av w s cl ltl la) = Inr (a, tgt)
        \<and> int (length (selected_wps s a))
             < next_wp_of (adjusted_min_distance w s) + base_index a"
  then have "fst (pid_run_step w s a) = Inl IndexError"
    using pid_run_step_short by blast
  then show "fst (run_step av w s cl ltl la m) = Inl IndexError"
    using h by (simp add: run_step_outcome [of s d])
qed

theorem short_buffer_index_error_witness:
  "int (length (selected_wps short_agent LANE_FOLLOW))
     < next_wp_of (adjusted_min_distance world0 short_agent) + base_index LANE_FOLLOW
   \<and> distance_to_center_front short_agent = Some 100
   \<and> fst (lane_change_action value0 world0 short_agent (- 2) (- 2) LANE_FOLLOW)
       = Inr (LANE_FOLLOW, - 2)
   \<and> fst (pid_run_step world0 short_agent LANE_FOLLOW) = Inl IndexError
   \<and> fst (run_step value0 world0 short_agent (- 2) (- 2) LANE_FOLLOW False) = Inl IndexError"
  using short_buffer_index_error [of short_agent LANE_FOLLOW world0 100 value0 "- 2" "- 2"
      LANE_FOLLOW "- 2" False]
  by (simp add: short_agent_decision short_agent_fields adjusted_min_distance_world0
        selected_wps_def base_index_def next_wp_of_def)

subsection \<open>The emergency stop\<close>

lemma gap_agent_buffers:
  "left_wps gap_agent = replicate 20 wp0"
  "center_wps gap_agent = replicate 20 wp0"
  "right_wps gap_agent = replicate 20 wp0"
  "enable_left_change gap_agent" "enable_right_change gap_agent"
  "last_lane gap_agent = None" "\<not> lane_change_mode gap_agent"
  "last_traffic_light gap_agent = None"
  by (simp_all add: gap_agent_def set_info_buffers set_info_config set_info_enable_left
        set_info_enable_right init_config init_flags info_gap_def info_full_def)

lemma gap_agent_candidate:
  "lane_change_candidate world0 gap_agent (- 2) = Inr LANE_CHANGE_LEFT"
  by (simp add: lane_change_candidate_def change_choice_def gap_agent_fields gap_ok_Some
        random_choice_pair world0_def)

lemma gap_agent_decision:
  "fst (lane_change_action value0 world0 gap_agent (- 2) (- 2) LANE_FOLLOW)
     = Inr (LANE_FOLLOW, - 2)"
  by (simp add: lane_change_action_def gap_agent_candidate gap_agent_buffers
        truthy_lane_def Let_def)

lemma list_item_replicate:
  "0 \<le> i \<Longrightarrow> i < int n \<Longrightarrow> list_item (replicate n x) i = Inr x"
  by (simp add: list_item_def)

lemma gap_agent_pid:
  "fst (pid_run_step world0 gap_agent LANE_FOLLOW)
     = Inr \<lparr>throttle = 1 / 2, brake = 0, steer = 1 / 4, gear = 1, hand_brake = None\<rparr>"
  by (simp add: pid_run_step_def Let_def adjusted_min_distance_world0 gap_agent_config
        gap_agent_buffers next_wp_of_def list_item_replicate world0_def raw0_def)

lemma world0_speed: "vehicle_speed world0 = 0"
  by (simp add: world0_def)

lemma gap_agent_no_light: "\<not> light_hazard world0 gap_agent"
  by (simp add: light_hazard_def affected_by_traffic_light_def gap_agent_config
        gap_agent_buffers Let_def world0_def)

text \<open>
  C3. Whenever \<open>run_step\<close> returns a command and either the light hazard of the tick is
  true, or the returned action is \<open>LANE_FOLLOW\<close> and the vehicle hazard of the tick is
  true, the command has throttle 0, brake \<open>max_brake\<close>, \<open>hand_brake\<close> false, and the steer
  and gear of the command of \<open>_pid_run_step\<close> for that action, the steer clamped first when
  \<open>modify_change_steer\<close> is set.
\<close>

theorem emergency_stop_override:
  assumes "fst (run_step av w s cl ltl la m) = Inr (control, tgt, a)"
    and "light_hazard w s
         \<or> (a = LANE_FOLLOW
             \<and> vehicle_obstacle_detected s (max_vehicle_distance s w) = Inr True)"
  shows "throttle control = 0 \<and> brake control = max_brake s
    \<and> hand_brake control = Some False
    \<and> (\<exists>nominal. fst (pid_run_step w s a) = Inr nominal
          \<and> steer control = steer (clamp_steer m a nominal)
          \<and> gear control = gear nominal)"
proof (cases "distance_to_center_front s")
  case None
  then show ?thesis using assms(1) run_step_type_error [of s av w cl ltl la m] by simp
next
  case (Some d)
  have dec: "fst (lane_change_action av w s cl ltl la) = Inr (a, tgt)"
    using assms(1) by (rule run_step_decision)
  obtain nominal where nom: "fst (pid_run_step w s a) = Inr nominal"
    using assms(1) unfolding run_step_outcome [OF Some] dec
    by (cases "fst (pid_run_step w s a)") simp_all
  have hz: "light_hazard w s
      \<or> (a = LANE_FOLLOW \<and> d < max_vehicle_distance s w \<and> \<not> ignore_vehicle s)"
    using assms(2) Some by (auto simp add: vehicle_obstacle_detected_def)
  have c: "control = add_emergency_stop s (clamp_steer m a nominal)"
    using assms(1) hz by (simp add: run_step_outcome [OF Some] dec nom)
  have g: "gear (clamp_steer m a nominal) = gear nominal"
    by (simp add: clamp_steer_def)
  show ?thesis
    using nom by (simp add: c g add_emergency_stop_def)
qed

theorem emergency_stop_override_witness:
  "fst (run_step value0 world0 gap_agent (- 2) (- 2) LANE_FOLLOW False)
     = Inr (\<lparr>throttle = 0, brake = 3 / 10, steer = 1 / 4, gear = 1, hand_brake = Some False\<rparr>,
            - 2, LANE_FOLLOW)
   \<and> vehicle_obstacle_detected gap_agent (max_vehicle_distance gap_agent world0) = Inr True
   \<and> max_brake gap_agent = 3 / 10"
proof -
  have r: "fst (run_step value0 world0 gap_agent (- 2) (- 2) LANE_FOLLOW False)
     = Inr (\<lparr>throttle = 0, brake = 3 / 10, steer = 1 / 4, gear = 1, hand_brake = Some False\<rparr>,
            - 2, LANE_FOLLOW)"
    by (simp add: run_step_outcome [OF gap_agent_fields(3)] gap_agent_decision gap_agent_pid
          gap_agent_no_light gap_agent_config max_vehicle_distance_def clamp_steer_def
          add_emergency_stop_def world0_speed)
  have v: "vehicle_obstacle_detected gap_agent (max_vehicle_distance gap_agent world0)
             = Inr True"
    by (simp add: vehicle_obstacle_detected_def gap_agent_fields gap_agent_config
          max_vehicle_distance_def world0_speed)
  show ?thesis
    using emergency_stop_override [OF r] v r by (simp add: gap_agent_config)
qed

subsection \<open>The red-light cache\<close>

lemma scan_lights_hazard:
  "scan_lights w md s ls = ((True, r), s') \<Longrightarrow>
     \<exists>x. r = Some x \<and> light_state w x = Red \<and> x \<in> set ls \<and> last_traffic_light s' = Some x"
proof (induction ls arbitrary: s)
  case Nil
  then show ?case by simp
next
  case (Cons l ls)
  show ?case
  proof (cases "lights_map s l")
    case None
    let ?s1 = "s\<lparr>lights_map := (lights_map s)(l \<mapsto> trigger_waypoint w l)\<rparr>"
    from Cons.prems None
    have "scan_lights w md ?s1 ls = ((True, r), s')
          \<or> (light_state w l = Red \<and> r = Some l \<and> s' = ?s1\<lparr>last_traffic_light := Some l\<rparr>)"
      by (auto simp add: Let_def split: if_splits)
    then show ?thesis
    proof
      assume "scan_lights w md ?s1 ls = ((True, r), s')"
      from Cons.IH [OF this] show ?thesis by auto
    next
      assume "light_state w l = Red \<and> r = Some l \<and> s' = ?s1\<lparr>last_traffic_light := Some l\<rparr>"
      then show ?thesis by simp
    qed
  next
    case (Some wp)
    from Cons.prems Some
    have "scan_lights w md s ls = ((True, r), s')
          \<or> (light_state w l = Red \<and> r = Some l \<and> s' = s\<lparr>last_traffic_light := Some l\<rparr>)"
      by (auto simp add: Let_def split: if_splits)
    then show ?thesis
    proof
      assume "scan_lights w md s ls = ((True, r), s')"
      from Cons.IH [OF this] show ?thesis by auto
    next
      assume "light_state w l = Red \<and> r = Some l \<and> s' = s\<lparr>last_traffic_light := Some l\<rparr>"
      then show ?thesis by simp
    qed
  qed
qed

lemma scan_lights_no_hazard:
  "scan_lights w md s ls = ((False, r), s') \<Longrightarrow>
     r = None \<and> last_traffic_light s' = last_traffic_light s"
proof (induction ls arbitrary: s)
  case Nil
  then show ?case by auto
next
  case (Cons l ls)
  show ?case
  proof (cases "lights_map s l")
    case None
    let ?s1 = "s\<lparr>lights_map := (lights_map s)(l \<mapsto> trigger_waypoint w l)\<rparr>"
    from Cons.prems None have "scan_lights w md ?s1 ls = ((False, r), s')"
      by (simp add: Let_def split: if_splits)
    from Cons.IH [OF this] show ?thesis by simp
  next
    case (Some wp)
    from Cons.prems Some have "scan_lights w md s ls = ((False, r), s')"
      by (simp add: Let_def split: if_splits)
    from Cons.IH [OF this] show ?thesis by simp
  qed
qed

lemma scan_lights_not_cached:
  assumes "light_state w l \<noteq> Red" and "last_traffic_light s = None"
  shows "fst (scan_lights w md s ls) \<noteq> (True, Some l)"
    and "last_traffic_light (snd (scan_lights w md s ls)) \<noteq> Some l"
proof -
  obtain b r s' where e: "scan_lights w md s ls = ((b, r), s')"
    by (metis prod.collapse)
  show "fst (scan_lights w md s ls) \<noteq> (True, Some l)"
    using scan_lights_hazard [of w md s ls r s'] e assms by (cases b) auto
  show "last_traffic_light (snd (scan_lights w md s ls)) \<noteq> Some l"
    using scan_lights_hazard [of w md s ls r s'] scan_lights_no_hazard [of w md s ls r s']
      e assms by (cases b) auto
qed

lemma affected_by_traffic_light_disabled:
  "ignore_traffic_lights s \<Longrightarrow> affected_by_traffic_light w s ls md = ((False, None), s)"
  by (simp add: affected_by_traffic_light_def)

lemma affected_by_traffic_light_cached:
  assumes "\<not> ignore_traffic_lights s" and "last_traffic_light s = Some l"
  shows "affected_by_traffic_light w s ls md =
     (if light_state w l = Red then ((True, Some l), s)
      else scan_lights w (effective_distance s md) (s\<lparr>last_traffic_light := None\<rparr>)
             (effective_lights w ls))"
  using assms
  by (simp add: affected_by_traffic_light_def effective_distance_def effective_lights_def
        Let_def)

text \<open>
  C5. The cache is rule 2 of the light-hazard rule and is reached when checking is not
  disabled (rule 1, lemma \<open>affected_by_traffic_light_disabled\<close>). On such a tick with a
  light cached: if the light is red on this tick, the detector returns the hazard with that
  light and leaves the agent as it is, whatever the light list holds (no light is looked
  at, no trigger waypoint is memoised); if it is not red, the result is that of the scan of
  the whole light list started with the cache emptied, and neither the reported light nor
  the cache after the tick is the light that was cached.
\<close>

theorem cached_red_light:
  assumes "\<not> ignore_traffic_lights s" and "last_traffic_light s = Some l"
  shows "(light_state w l = Red \<longrightarrow>
            affected_by_traffic_light w s ls md = ((True, Some l), s))
    \<and> (light_state w l \<noteq> Red \<longrightarrow>
          affected_by_traffic_light w s ls md
            = scan_lights w (effective_distance s md) (s\<lparr>last_traffic_light := None\<rparr>)
                (effective_lights w ls)
          \<and> fst (affected_by_traffic_light w s ls md) \<noteq> (True, Some l)
          \<and> last_traffic_light (snd (affected_by_traffic_light w s ls md)) \<noteq> Some l)"
proof (intro conjI impI)
  assume "light_state w l = Red"
  then show "affected_by_traffic_light w s ls md = ((True, Some l), s)"
    by (simp add: affected_by_traffic_light_cached [OF assms])
next
  assume n: "light_state w l \<noteq> Red"
  then show e: "affected_by_traffic_light w s ls md
            = scan_lights w (effective_distance s md) (s\<lparr>last_traffic_light := None\<rparr>)
                (effective_lights w ls)"
    by (simp add: affected_by_traffic_light_cached [OF assms])
  have c: "last_traffic_light (s\<lparr>last_traffic_light := None\<rparr>) = None" by simp
  show "fst (affected_by_traffic_light w s ls md) \<noteq> (True, Some l)"
    unfolding e by (rule scan_lights_not_cached(1) [OF n c])
  show "last_traffic_light (snd (affected_by_traffic_light w s ls md)) \<noteq> Some l"
    unfolding e by (rule scan_lights_not_cached(2) [OF n c])
qed

lemma gap_agent_lights_map: "lights_map gap_agent = Map.empty"
  by (simp add: gap_agent_def set_info_config init_config)

lemma gap_agent_tlight: "base_tlight_threshold gap_agent = 5"
  by (simp add: gap_agent_def set_info_config init_config default_opts_def opt_or_def)

lemma world_red_fields:
  "world_lights world_red = [7]" "light_state world_red l = Red"
  "vehicle_speed world_red = 0" "trigger_waypoint world_red l = wp0"
  "ego_waypoint world_red = wp0" "veh_location world_red = (0, 0, 0)"
  "loc_distance world_red a b = \<bar>fst a - fst b\<bar>" "is_within_distance world_red wp d"
  by (simp_all add: world_red_def world0_def)

lemma world0_fields:
  "world_lights world0 = []" "light_state world0 l = Green"
  by (simp_all add: world0_def)

lemma cached_agent_eq:
  "cached_agent = gap_agent\<lparr>lights_map := [7 \<mapsto> wp0], last_traffic_light := Some 7\<rparr>"
  by (simp add: cached_agent_def affected_by_traffic_light_def gap_agent_config
        gap_agent_buffers gap_agent_lights_map max_tlight_distance_def world_red_fields
        gap_agent_tlight Let_def wp0_def)

lemma cached_agent_fields:
  "last_traffic_light cached_agent = Some 7" "\<not> ignore_traffic_lights cached_agent"
  by (simp_all add: cached_agent_eq gap_agent_config)

theorem cached_red_light_witness:
  "\<not> ignore_traffic_lights cached_agent \<and> last_traffic_light cached_agent = Some 7
   \<and> light_state world_red 7 = Red
   \<and> affected_by_traffic_light world_red cached_agent (Some [8, 9]) (Some 5)
       = ((True, Some 7), cached_agent)
   \<and> light_state world0 7 \<noteq> Red
   \<and> affected_by_traffic_light world0 cached_agent (Some []) (Some 5)
       = ((False, None), cached_agent\<lparr>last_traffic_light := None\<rparr>)"
  using cached_red_light [OF cached_agent_fields(2) cached_agent_fields(1), of world_red
      "Some [8, 9]" "Some 5"]
    cached_red_light [OF cached_agent_fields(2) cached_agent_fields(1), of world0
      "Some []" "Some 5"]
  by (simp add: cached_agent_fields world_red_fields world0_fields effective_lights_def)

subsection \<open>The maneuver state across ticks\<close>

lemma lane_change_candidate_unrecognized:
  "cl \<noteq> - 1 \<Longrightarrow> cl \<noteq> - 2 \<Longrightarrow> cl \<noteq> - 3 \<Longrightarrow> lane_change_candidate w s cl = Inr LANE_FOLLOW"
  by (simp add: lane_change_candidate_def)

lemma gate_follow: "gate s LANE_FOLLOW = LANE_FOLLOW"
  by (simp add: gate_def)

lemma gate_closed:
  "\<not> enable_left_change s \<Longrightarrow> gate s c \<noteq> LANE_CHANGE_LEFT"
  "\<not> enable_right_change s \<Longrightarrow> gate s c \<noteq> LANE_CHANGE_RIGHT"
  by (simp_all add: gate_def Let_def)

lemma lane_change_action_error:
  "fst (lane_change_action av w s cl ltl la) = Inl e \<Longrightarrow>
     snd (lane_change_action av w s cl ltl la) = s"
  by (auto simp add: lane_change_action_def Let_def split: sum.splits if_splits)

lemma lane_change_action_committed:
  assumes "lane_change_mode s" and "last_lane s = Some cl" and "cl \<noteq> 0"
  shows "fst (lane_change_action av w s cl ltl la)
           = (case lane_change_candidate w s cl of Inl e \<Rightarrow> Inl e | Inr c \<Rightarrow> Inr (la, ltl))"
    and "lane_change_mode (snd (lane_change_action av w s cl ltl la))"
    and "last_lane (snd (lane_change_action av w s cl ltl la)) = Some cl"
  using assms
  by (simp_all add: lane_change_action_def truthy_lane_def Let_def split: sum.splits)

lemma lane_change_action_fresh:
  assumes "\<not> (lane_change_mode s \<and> truthy_lane (last_lane s) \<and> last_lane s = Some cl)"
    and "fst (lane_change_action av w s cl ltl la) = Inr (a, tgt)"
  shows "\<exists>c. lane_change_candidate w s cl = Inr c \<and> (a = gate s c \<or> a = LANE_FOLLOW)"
  using assms
  by (auto simp add: lane_change_action_def Let_def split: sum.splits if_splits)

lemma lane_change_action_inv:
  assumes "lane_inv s"
  shows "lane_inv (snd (lane_change_action av w s cl ltl la))"
proof (cases "lane_change_candidate w s cl")
  case (Inl e)
  then show ?thesis using assms by (simp add: lane_change_action_def)
next
  case (Inr c)
  show ?thesis
  proof (cases "cl = - 1 \<or> cl = - 2 \<or> cl = - 3")
    case True
    then show ?thesis
      using Inr by (auto simp add: lane_change_action_def lane_inv_def Let_def)
  next
    case False
    then have "c = LANE_FOLLOW"
      using Inr lane_change_candidate_unrecognized [of cl w s] by simp
    then show ?thesis
      using Inr assms False
      by (auto simp add: lane_change_action_def lane_inv_def gate_follow Let_def)
  qed
qed

lemma lane_change_action_unrecognized:
  assumes "lane_inv s" and "cl \<noteq> - 1" and "cl \<noteq> - 2" and "cl \<noteq> - 3"
  shows "\<exists>tgt. fst (lane_change_action av w s cl ltl la) = Inr (LANE_FOLLOW, tgt)"
  using assms lane_change_candidate_unrecognized [of cl w s]
  by (auto simp add: lane_change_action_def lane_inv_def gate_follow Let_def)

lemma pid_run_step_lane_state:
  "lane_change_mode (snd (pid_run_step w x a)) = lane_change_mode x"
  "last_lane (snd (pid_run_step w x a)) = last_lane x"
  by (simp_all add: pid_run_step_def Let_def split: sum.splits)

lemma run_step_lane_state:
  assumes "distance_to_center_front s = Some d"
  shows "lane_change_mode (snd (run_step av w s cl ltl la m))
           = lane_change_mode (snd (lane_change_action av w s cl ltl la))"
    and "last_lane (snd (run_step av w s cl ltl la m))
           = last_lane (snd (lane_change_action av w s cl ltl la))"
proof -
  let ?s0 = "s\<lparr>autopilot_step := autopilot_step s + 1\<rparr>"
  let ?tl = "affected_by_traffic_light w ?s0 (Some (world_lights w))
               (Some (max_tlight_distance ?s0 w))"
  let ?lca = "lane_change_action av w (snd ?tl) cl ltl la"
  have v: "vehicle_obstacle_detected ?s0 (max_vehicle_distance ?s0 w)
             = Inr (d < max_vehicle_distance s w \<and> \<not> ignore_vehicle s)"
    using assms by (simp add: vehicle_obstacle_detected_def max_vehicle_distance_def)
  have p1: "pre_frame (snd ?tl) = pre_frame s"
    by (rule pre_frame_run_step_stage)
  have m: "lane_change_mode (snd ?lca) = lane_change_mode (snd (lane_change_action av w s cl ltl la))"
    by (rule lane_change_action_cong(2) [OF p1])
  have l: "last_lane (snd ?lca) = last_lane (snd (lane_change_action av w s cl ltl la))"
    by (rule lane_change_action_cong(3) [OF p1])
  show "lane_change_mode (snd (run_step av w s cl ltl la m))
           = lane_change_mode (snd (lane_change_action av w s cl ltl la))"
    unfolding run_step_def Let_def v
    by (simp add: m pid_run_step_lane_state split: sum.splits)
  show "last_lane (snd (run_step av w s cl ltl la m))
           = last_lane (snd (lane_change_action av w s cl ltl la))"
    unfolding run_step_def Let_def v
    by (simp add: l pid_run_step_lane_state split: sum.splits)
qed

lemma set_info_lane_inv: "lane_inv (set_info s info) = lane_inv s"
  by (simp add: lane_inv_def set_info_config)

lemma agent_tick_lane_state:
  "lane_change_mode (snd (agent_tick av s t))
     = lane_change_mode (snd (lane_change_action av (tick_world t) (set_info s (tick_info t))
         (current_lane t) (last_target_lane t) (last_action t)))"
  "last_lane (snd (agent_tick av s t))
     = last_lane (snd (lane_change_action av (tick_world t) (set_info s (tick_info t))
         (current_lane t) (last_target_lane t) (last_action t)))"
  unfolding agent_tick_def
  by (rule run_step_lane_state [OF set_info_distances(2)])+

lemma agent_tick_lane_inv:
  assumes "lane_inv s"
  shows "lane_inv (snd (agent_tick av s t))"
proof -
  have "lane_inv (snd (lane_change_action av (tick_world t) (set_info s (tick_info t))
         (current_lane t) (last_target_lane t) (last_action t)))"
    using assms by (intro lane_change_action_inv) (simp add: set_info_lane_inv)
  then show ?thesis
    by (simp add: lane_inv_def agent_tick_lane_state)
qed

lemma agent_after_lane_inv: "lane_inv s \<Longrightarrow> lane_inv (agent_after av s ts)"
  by (induction ts arbitrary: s) (simp_all add: agent_tick_lane_inv)

lemma init_lane_inv: "lane_inv (init od)"
  by (simp add: lane_inv_def init_config)

lemma agent_tick_decision:
  assumes "fst (agent_tick av s t) = Inr (c, tgt, a)"
  shows "fst (lane_change_action av (tick_world t) (set_info s (tick_info t))
            (current_lane t) (last_target_lane t) (last_action t)) = Inr (a, tgt)"
  using assms unfolding agent_tick_def by (rule run_step_decision)

text \<open>
  C9. On every tick of an agent that has lived through any sequence of ticks since its
  construction, a current lane other than \<open>-1\<close>, \<open>-2\<close>, \<open>-3\<close> makes \<open>_lane_change_action\<close>
  return without an exception, with the action \<open>LANE_FOLLOW\<close>; and whenever \<open>run_step\<close>
  returns on such a tick, the action it returns is \<open>LANE_FOLLOW\<close>.
\<close>

theorem unrecognized_lane_follows:
  assumes "current_lane t \<noteq> - 1" and "current_lane t \<noteq> - 2" and "current_lane t \<noteq> - 3"
  shows "(\<exists>tgt. fst (lane_change_action av (tick_world t)
                     (set_info (agent_after av (init od) ts) (tick_info t))
                     (current_lane t) (last_target_lane t) (last_action t))
                 = Inr (LANE_FOLLOW, tgt))
    \<and> (\<forall>c tgt a. fst (agent_tick av (agent_after av (init od) ts) t) = Inr (c, tgt, a)
          \<longrightarrow> a = LANE_FOLLOW)"
proof -
  let ?s = "set_info (agent_after av (init od) ts) (tick_info t)"
  have i: "lane_inv ?s"
    by (simp add: set_info_lane_inv agent_after_lane_inv init_lane_inv)
  obtain tgt0 where d: "fst (lane_change_action av (tick_world t) ?s
       (current_lane t) (last_target_lane t) (last_action t)) = Inr (LANE_FOLLOW, tgt0)"
    using lane_change_action_unrecognized [OF i assms] by blast
  have "a = LANE_FOLLOW"
    if "fst (agent_tick av (agent_after av (init od) ts) t) = Inr (c, tgt, a)" for c tgt a
    using agent_tick_decision [OF that] d by simp
  then show ?thesis using d by blast
qed

lemma random_choice_defined: "xs \<noteq> [] \<Longrightarrow> \<exists>c. random_choice r xs = Inr c"
  by (simp add: random_choice_def)

lemma lane_change_candidate_defined:
  assumes "choices_inv s"
  shows "\<exists>c. lane_change_candidate w (set_info s info) cl = Inr c"
proof (cases "random_lane_change s")
  case True
  then show ?thesis
    using assms
    by (simp add: lane_change_candidate_def set_info_config choices_inv_def
          random_choice_defined)
next
  case False
  obtain cs where cs: "change_choice (set_info s info) = Inr cs"
    by (simp add: change_choice_def set_info_distances gap_ok_Some)
  have "\<exists>c. (if length cs = 0 then Inr LANE_FOLLOW else random_choice (random_draw w) cs)
              = (Inr c :: py_error + Action)"
    by (simp add: random_choice_defined)
  then show ?thesis
    using False cs
    by (simp add: lane_change_candidate_def set_info_config set_info_distances gap_ok_Some)
qed

lemma run_step_choices:
  "left_random_change (snd (run_step av w s cl ltl la m)) = left_random_change s"
  "center_random_change (snd (run_step av w s cl ltl la m)) = center_random_change s"
  "right_random_change (snd (run_step av w s cl ltl la m)) = right_random_change s"
  "random_lane_change (snd (run_step av w s cl ltl la m)) = random_lane_change s"
proof -
  have e: "left_random_change x = left_random_change (step_frame x)"
    "center_random_change x = center_random_change (step_frame x)"
    "right_random_change x = right_random_change (step_frame x)"
    "random_lane_change x = random_lane_change (step_frame x)" for x
    by (simp_all add: step_frame_def)
  show "left_random_change (snd (run_step av w s cl ltl la m)) = left_random_change s"
    "center_random_change (snd (run_step av w s cl ltl la m)) = center_random_change s"
    "right_random_change (snd (run_step av w s cl ltl la m)) = right_random_change s"
    "random_lane_change (snd (run_step av w s cl ltl la m)) = random_lane_change s"
    using run_step_frame [of av w s cl ltl la m] e by metis+
qed

lemma agent_tick_choices_inv: "choices_inv (snd (agent_tick av s t)) = choices_inv s"
  by (simp add: choices_inv_def agent_tick_def run_step_choices set_info_config)

lemma agent_after_choices_inv: "choices_inv (agent_after av s ts) = choices_inv s"
  by (induction ts arbitrary: s) (simp_all add: agent_tick_choices_inv)

lemma init_choices_inv: "choices_inv (init od)"
  by (simp add: choices_inv_def init_random_lists)

lemma committed_tick:
  assumes "lane_change_mode s" and "last_lane s = Some l" and "l \<noteq> 0" and "choices_inv s"
    and "current_lane t = l"
  shows "fst (lane_change_action av (tick_world t) (set_info s (tick_info t)) (current_lane t)
            (last_target_lane t) (last_action t))
           = Inr (last_action t, last_target_lane t)"
    and "lane_change_mode (snd (agent_tick av s t))"
    and "last_lane (snd (agent_tick av s t)) = Some l"
proof -
  let ?s = "set_info s (tick_info t)"
  have m: "lane_change_mode ?s" and ll: "last_lane ?s = Some (current_lane t)"
    using assms by (simp_all add: set_info_config)
  have nz: "current_lane t \<noteq> 0" using assms by simp
  obtain c where c: "lane_change_candidate (tick_world t) ?s (current_lane t) = Inr c"
    using lane_change_candidate_defined [OF assms(4)] by blast
  show "fst (lane_change_action av (tick_world t) ?s (current_lane t)
            (last_target_lane t) (last_action t))
           = Inr (last_action t, last_target_lane t)"
    using lane_change_action_committed(1) [OF m ll nz] c by simp
  show "lane_change_mode (snd (agent_tick av s t))"
    using lane_change_action_committed(2) [OF m ll nz] by (simp add: agent_tick_lane_state)
  show "last_lane (snd (agent_tick av s t)) = Some l"
    using lane_change_action_committed(3) [OF m ll nz] assms(5)
    by (simp add: agent_tick_lane_state)
qed

lemma committed_run:
  assumes "lane_change_mode s" and "last_lane s = Some l" and "l \<noteq> 0" and "choices_inv s"
    and "\<forall>t \<in> set ts. current_lane t = l"
  shows "decisions av s ts = map (\<lambda>t. Inr (last_action t, last_target_lane t)) ts
    \<and> list_all2 (\<lambda>t r. \<forall>c tgt a. r = Inr (c, tgt, a)
                  \<longrightarrow> a = last_action t \<and> tgt = last_target_lane t)
        ts (run_ticks av s ts)
    \<and> lane_change_mode (agent_after av s ts) \<and> last_lane (agent_after av s ts) = Some l"
  using assms
proof (induction ts arbitrary: s)
  case Nil
  then show ?case by simp
next
  case (Cons t ts)
  have cl: "current_lane t = l" using Cons.prems(5) by simp
  note step = committed_tick [OF Cons.prems(1-4) cl, of av]
  have ci: "choices_inv (snd (agent_tick av s t))"
    using Cons.prems(4) by (simp add: agent_tick_choices_inv)
  have rest: "\<forall>t \<in> set ts. current_lane t = l" using Cons.prems(5) by simp
  note ih = Cons.IH [OF step(2) step(3) Cons.prems(3) ci rest]
  have r: "a = last_action t \<and> tgt = last_target_lane t"
    if "fst (agent_tick av s t) = Inr (c, tgt, a)" for c tgt a
    using agent_tick_decision [OF that] step(1) by simp
  show ?case
    using ih step(1) r by simp
qed

text \<open>With a change in progress, every tick on the recorded lane returns the \<open>last_action\<close>
  and \<open>last_target_lane\<close> it is passed, whatever the candidate is.\<close>

lemma committed_arguments:
  assumes "s = agent_after av (init od) ts0" and "lane_change_mode s"
    and "\<forall>t \<in> set ts. Some (current_lane t) = last_lane s"
  shows "decisions av s ts = map (\<lambda>t. Inr (last_action t, last_target_lane t)) ts
    \<and> list_all2 (\<lambda>t r. \<forall>c tgt a. r = Inr (c, tgt, a)
                  \<longrightarrow> a = last_action t \<and> tgt = last_target_lane t)
        ts (run_ticks av s ts)
    \<and> lane_change_mode (agent_after av s ts)
    \<and> last_lane (agent_after av s ts) = last_lane s"
proof -
  have i: "lane_inv s" and ci: "choices_inv s"
    using assms(1)
    by (simp_all add: agent_after_lane_inv init_lane_inv agent_after_choices_inv
          init_choices_inv)
  obtain l where l: "last_lane s = Some l" and nz: "l \<noteq> 0"
    using i assms(2) by (auto simp add: lane_inv_def)
  have all: "\<forall>t \<in> set ts. current_lane t = l"
    using assms(3) l by simp
  show ?thesis
    using committed_run [OF assms(2) l nz ci all, of av] l by simp
qed

subsection \<open>The concrete run under the gap-based policy\<close>

lemma tick0_fields:
  "tick_info (tick0 info cl ltl la) = info" "tick_world (tick0 info cl ltl la) = world0"
  "current_lane (tick0 info cl ltl la) = cl" "last_target_lane (tick0 info cl ltl la) = ltl"
  "last_action (tick0 info cl ltl la) = la" "\<not> modify_change_steer (tick0 info cl ltl la)"
  by (simp_all add: tick0_def)

lemma info_gap_fields:
  "distance_to_front_vehicles info_gap = (20, 5, 30)"
  "distance_to_rear_vehicles info_gap = (10, 10, 10)"
  "info_left_wps info_gap = replicate 20 wp0"
  "info_center_wps info_gap = replicate 20 wp0"
  "info_right_wps info_gap = replicate 20 wp0"
  "distance_to_front_vehicles info_gap_no_left = (20, 5, 30)"
  "distance_to_rear_vehicles info_gap_no_left = (10, 10, 10)"
  "info_left_wps info_gap_no_left = []"
  "info_center_wps info_gap_no_left = replicate 20 wp0"
  "info_right_wps info_gap_no_left = replicate 20 wp0"
  by (simp_all add: info_gap_no_left_def info_gap_def info_full_def)

lemma gap_candidate_left:
  assumes "\<not> random_lane_change s"
    and "distance_to_front_vehicles info = (20, 5, 30)"
    and "distance_to_rear_vehicles info = (10, 10, 10)"
  shows "lane_change_candidate world0 (set_info s info) (- 2) = Inr LANE_CHANGE_LEFT"
  using assms
  by (simp add: lane_change_candidate_def change_choice_def set_info_config
        set_info_distances gap_ok_Some random_choice_pair world0_def)

lemma gap_init_fields:
  "\<not> random_lane_change gap_init" "\<not> ignore_change_gap gap_init"
  "last_lane gap_init = None" "\<not> lane_change_mode gap_init"
  by (simp_all add: gap_init_def init_config init_flags default_opts_def opt_or_def)

lemma agent_tick_policy:
  "random_lane_change (snd (agent_tick av s t)) = random_lane_change s"
  "ignore_change_gap (snd (agent_tick av s t)) = ignore_change_gap s"
  by (simp_all add: agent_tick_def run_step_choices run_step_enable set_info_config
        set_info_ignore_change_gap)

lemma agent_after_policy:
  "random_lane_change (agent_after av s ts) = random_lane_change s"
  "ignore_change_gap (agent_after av s ts) = ignore_change_gap s"
  by (induction ts arbitrary: s) (simp_all add: agent_tick_policy)

text \<open>One tick of the run, for any agent under the gap policy that recomputes its flags:
  the decision and the maneuver state it leaves.\<close>

lemma gap_tick:
  assumes "\<not> random_lane_change s" and "\<not> ignore_change_gap s"
  shows "lane_change_action value0 world0 (set_info s info_gap) (- 2) ltl la =
     (if last_lane s = Some (- 2) then
        (if lane_change_mode s
         then (Inr (la, ltl), (set_info s info_gap)\<lparr>last_lane := Some (- 2)\<rparr>)
         else (Inr (LANE_CHANGE_LEFT, - 1),
               (set_info s info_gap)\<lparr>lane_change_mode := True, last_lane := Some (- 2)\<rparr>))
      else if truthy_lane (last_lane s) then
        (Inr (LANE_FOLLOW, - 2),
         (set_info s info_gap)\<lparr>lane_change_mode := False, last_lane := Some (- 2)\<rparr>)
      else
        (Inr (LANE_FOLLOW, - 2),
         (set_info s info_gap)\<lparr>lane_change_mode := False, last_lane := Some (- 2)\<rparr>))"
proof -
  have c: "lane_change_candidate world0 (set_info s info_gap) (- 2) = Inr LANE_CHANGE_LEFT"
    by (rule gap_candidate_left [OF assms(1) info_gap_fields(1) info_gap_fields(2)])
  have g: "gate (set_info s info_gap) LANE_CHANGE_LEFT = LANE_CHANGE_LEFT"
    using assms(2) by (simp add: gate_def set_info_enable_left info_gap_fields)
  show ?thesis
    by (auto simp add: lane_change_action_def c g set_info_config truthy_lane_def
          value0_def Let_def)
qed

lemma gap_tick_state:
  assumes "\<not> random_lane_change s" and "\<not> ignore_change_gap s"
  shows "last_lane (snd (agent_tick value0 s (tick0 info_gap (- 2) ltl la))) = Some (- 2)"
    and "lane_change_mode (snd (agent_tick value0 s (tick0 info_gap (- 2) ltl la)))
           = (last_lane s = Some (- 2))"
    and "fst (lane_change_action value0 world0 (set_info s info_gap) (- 2) ltl la)
           = (if last_lane s = Some (- 2)
              then (if lane_change_mode s then Inr (la, ltl) else Inr (LANE_CHANGE_LEFT, - 1))
              else Inr (LANE_FOLLOW, - 2))"
  by (simp_all add: agent_tick_lane_state tick0_fields gap_tick [OF assms] set_info_config)

lemma first_tick_state:
  "last_lane (snd (agent_tick value0 gap_init (tick0 info_gap (- 2) ltl la))) = Some (- 2)"
  "\<not> lane_change_mode (snd (agent_tick value0 gap_init (tick0 info_gap (- 2) ltl la)))"
  "\<not> random_lane_change (snd (agent_tick value0 gap_init (tick0 info_gap (- 2) ltl la)))"
  "\<not> ignore_change_gap (snd (agent_tick value0 gap_init (tick0 info_gap (- 2) ltl la)))"
  using gap_tick_state(1,2) [OF gap_init_fields(1) gap_init_fields(2), of ltl la]
  by (simp_all add: gap_init_fields agent_tick_policy)

lemma started_fields:
  "lane_change_mode (agent_after value0 gap_init start_ticks)"
  "last_lane (agent_after value0 gap_init start_ticks) = Some (- 2)"
  "\<not> random_lane_change (agent_after value0 gap_init start_ticks)"
  "\<not> ignore_change_gap (agent_after value0 gap_init start_ticks)"
proof -
  let ?s1 = "snd (agent_tick value0 gap_init (tick0 info_gap (- 2) (- 2) LANE_FOLLOW))"
  have e: "agent_after value0 gap_init start_ticks
             = snd (agent_tick value0 ?s1 (tick0 info_gap (- 2) (- 2) LANE_FOLLOW))"
    by (simp add: start_ticks_def)
  note st = gap_tick_state(1,2) [OF first_tick_state(3) [of "- 2" LANE_FOLLOW]
      first_tick_state(4) [of "- 2" LANE_FOLLOW], of "- 2" LANE_FOLLOW]
  show "lane_change_mode (agent_after value0 gap_init start_ticks)"
    unfolding e using st(2) first_tick_state(1) [of "- 2" LANE_FOLLOW] by blast
  show "last_lane (agent_after value0 gap_init start_ticks) = Some (- 2)"
    unfolding e using st(1) by blast
  show "\<not> random_lane_change (agent_after value0 gap_init start_ticks)"
    "\<not> ignore_change_gap (agent_after value0 gap_init start_ticks)"
    by (simp_all add: agent_after_policy gap_init_fields)
qed

lemma start_decisions:
  "decisions value0 gap_init start_ticks
     = [Inr (LANE_FOLLOW, - 2), Inr (LANE_CHANGE_LEFT, - 1)]"
proof -
  let ?t = "tick0 info_gap (- 2) (- 2) LANE_FOLLOW"
  let ?s1 = "snd (agent_tick value0 gap_init ?t)"
  have d1: "fst (lane_change_action value0 world0 (set_info gap_init info_gap) (- 2) (- 2)
                   LANE_FOLLOW) = Inr (LANE_FOLLOW, - 2)"
    using gap_tick_state(3) [OF gap_init_fields(1) gap_init_fields(2), of "- 2" LANE_FOLLOW]
    by (simp add: gap_init_fields)
  have d2: "fst (lane_change_action value0 world0 (set_info ?s1 info_gap) (- 2) (- 2)
                   LANE_FOLLOW) = Inr (LANE_CHANGE_LEFT, - 1)"
    using gap_tick_state(3) [OF first_tick_state(3) [of "- 2" LANE_FOLLOW]
        first_tick_state(4) [of "- 2" LANE_FOLLOW], of "- 2" LANE_FOLLOW]
      first_tick_state(1,2) [of "- 2" LANE_FOLLOW]
    by simp
  have "decisions value0 gap_init start_ticks
          = [fst (lane_change_action value0 world0 (set_info gap_init info_gap) (- 2) (- 2)
                   LANE_FOLLOW),
             fst (lane_change_action value0 world0 (set_info ?s1 info_gap) (- 2) (- 2)
                   LANE_FOLLOW)]"
    by (simp add: start_ticks_def tick0_fields)
  then show ?thesis
    unfolding d1 d2 .
qed

lemma decisions_append:
  "decisions av s (ts @ us) = decisions av s ts @ decisions av (agent_after av s ts) us"
  by (induction ts arbitrary: s) simp_all

lemma agent_after_append:
  "agent_after av s (ts @ us) = agent_after av (agent_after av s ts) us"
  by (induction ts arbitrary: s) simp_all

lemma run_step_projection:
  assumes "distance_to_center_front s = Some d"
    and "fst (lane_change_action av w s cl ltl la) = Inr (a, tgt)"
    and "fst (pid_run_step w s a) = Inr n"
  shows "map_sum id snd (fst (run_step av w s cl ltl la m)) = Inr (tgt, a)"
  using assms(2,3) by (simp add: run_step_outcome [OF assms(1)])

lemma pid_world0_long:
  assumes "base_min_distance s = 3" and "selected_wps s a = replicate 20 wp0"
  shows "\<exists>n. fst (pid_run_step world0 s a) = Inr n"
  using assms
  by (cases a)
     (simp_all add: pid_run_step_def Let_def adjusted_min_distance_world0 next_wp_of_def
        list_item_replicate selected_wps_def)

lemma agent_tick_base_min_distance:
  "base_min_distance (snd (agent_tick av s t)) = base_min_distance s"
proof -
  have e: "base_min_distance x = base_min_distance (step_frame x)" for x
    by (simp add: step_frame_def)
  have "base_min_distance (snd (run_step av w x cl ltl la m)) = base_min_distance x"
    for w x cl ltl la m
    using run_step_frame [of av w x cl ltl la m] e by metis
  then show ?thesis by (simp add: agent_tick_def set_info_config)
qed

lemma agent_after_base_min_distance:
  "base_min_distance (agent_after av s ts) = base_min_distance s"
  by (induction ts arbitrary: s) (simp_all add: agent_tick_base_min_distance)

lemma agent_tick_projection:
  assumes "fst (lane_change_action value0 world0 (set_info s info) cl ltl la) = Inr (a, tgt)"
    and "base_min_distance s = 3"
    and "selected_wps (set_info s info) a = replicate 20 wp0"
  shows "map_sum id snd (fst (agent_tick value0 s (tick0 info cl ltl la))) = Inr (tgt, a)"
proof -
  have b: "base_min_distance (set_info s info) = 3"
    using assms(2) by (simp add: set_info_config)
  obtain n where n: "fst (pid_run_step world0 (set_info s info) a) = Inr n"
    using pid_world0_long [OF b assms(3)] by blast
  show ?thesis
    unfolding agent_tick_def tick0_fields
    by (rule run_step_projection [OF set_info_distances(2) assms(1) n])
qed

lemma selected_wps_update:
  "selected_wps (set_info s info_gap) a = replicate 20 wp0"
  "selected_wps (set_info s info_gap_no_left) LANE_FOLLOW = replicate 20 wp0"
  by (cases a; simp add: selected_wps_def set_info_buffers info_gap_fields)
     (simp add: selected_wps_def set_info_buffers info_gap_fields)

lemma run_ticks_append:
  "run_ticks av s (ts @ us) = run_ticks av s ts @ run_ticks av (agent_after av s ts) us"
  by (induction ts arbitrary: s) simp_all

lemma gap_init_base: "base_min_distance gap_init = 3"
  by (simp add: gap_init_def init_config)

lemma start_run:
  "map (map_sum id snd) (run_ticks value0 gap_init start_ticks)
     = [Inr (- 2, LANE_FOLLOW), Inr (- 1, LANE_CHANGE_LEFT)]"
proof -
  let ?t = "tick0 info_gap (- 2) (- 2) LANE_FOLLOW"
  let ?s1 = "snd (agent_tick value0 gap_init ?t)"
  have d: "fst (lane_change_action value0 world0 (set_info gap_init info_gap) (- 2) (- 2)
                   LANE_FOLLOW) = Inr (LANE_FOLLOW, - 2)"
    "fst (lane_change_action value0 world0 (set_info ?s1 info_gap) (- 2) (- 2)
                   LANE_FOLLOW) = Inr (LANE_CHANGE_LEFT, - 1)"
    using start_decisions by (simp_all add: start_ticks_def tick0_fields)
  have b: "base_min_distance ?s1 = 3"
    by (simp add: agent_tick_base_min_distance gap_init_base)
  have 1: "map_sum id snd (fst (agent_tick value0 gap_init ?t)) = Inr (- 2, LANE_FOLLOW)"
    by (rule agent_tick_projection [OF d(1) gap_init_base selected_wps_update(1)])
  have 2: "map_sum id snd (fst (agent_tick value0 ?s1 ?t)) = Inr (- 1, LANE_CHANGE_LEFT)"
    by (rule agent_tick_projection [OF d(2) b selected_wps_update(1)])
  show ?thesis
    by (simp add: start_ticks_def 1 2)
qed

lemma started_base: "base_min_distance (agent_after value0 gap_init start_ticks) = 3"
  by (simp add: agent_after_base_min_distance gap_init_base)

lemma started_decision:
  "fst (lane_change_action value0 world0
          (set_info (agent_after value0 gap_init start_ticks) info) (- 2) ltl la)
     = Inr (la, ltl)"
proof -
  let ?s = "set_info (agent_after value0 gap_init start_ticks) info"
  have ci: "choices_inv (agent_after value0 gap_init start_ticks)"
    by (simp add: agent_after_choices_inv gap_init_def init_choices_inv)
  obtain c where c: "lane_change_candidate world0 ?s (- 2) = Inr c"
    using lane_change_candidate_defined [OF ci] by blast
  have m: "lane_change_mode ?s" and l: "last_lane ?s = Some (- 2)"
    by (simp_all add: set_info_config started_fields)
  show ?thesis
    using lane_change_action_committed(1) [OF m l, of value0 world0 ltl la] c by simp
qed

lemma fed_back_arguments:
  assumes "lane_change_mode s" and "last_lane s = Some l" and "l \<noteq> 0" and "choices_inv s"
    and "\<forall>t \<in> set ts. current_lane t = l"
    and "fed_back prev ts (run_ticks av s ts)"
  shows "\<forall>t \<in> set ts. last_action t = fst prev \<and> last_target_lane t = snd prev"
  using assms
proof (induction ts arbitrary: s)
  case Nil
  then show ?case by simp
next
  case (Cons t ts)
  have cl: "current_lane t = l" using Cons.prems(5) by simp
  note step = committed_tick [OF Cons.prems(1-4) cl, of av]
  have ci: "choices_inv (snd (agent_tick av s t))"
    using Cons.prems(4) by (simp add: agent_tick_choices_inv)
  have rest: "\<forall>t \<in> set ts. current_lane t = l" using Cons.prems(5) by simp
  have args: "last_action t = fst prev" "last_target_lane t = snd prev"
    using Cons.prems(6) by simp_all
  have same: "(case fst (agent_tick av s t) of Inl e \<Rightarrow> prev
               | Inr res \<Rightarrow> (snd (snd res), fst (snd res))) = prev"
  proof (cases "fst (agent_tick av s t)")
    case (Inl e)
    then show ?thesis by simp
  next
    case (Inr res)
    obtain c tgt a where res: "res = (c, tgt, a)" by (cases res) auto
    have "fst (lane_change_action av (tick_world t) (set_info s (tick_info t))
            (current_lane t) (last_target_lane t) (last_action t)) = Inr (a, tgt)"
      using agent_tick_decision [of av s t c tgt a] Inr res by simp
    then have "a = fst prev" "tgt = snd prev" using step(1) args by auto
    then show ?thesis using Inr res by simp
  qed
  have fb: "fed_back prev ts (run_ticks av (snd (agent_tick av s t)) ts)"
    using Cons.prems(6) same by simp
  note ih = Cons.IH [OF step(2) step(3) Cons.prems(3) ci rest fb]
  show ?case using ih args by simp
qed

lemma committed_fed_back:
  assumes "lane_change_mode s" and "last_lane s = Some l" and "l \<noteq> 0" and "choices_inv s"
    and "\<forall>t \<in> set ts. current_lane t = l"
    and "\<forall>t \<in> set ts. last_action t = fst prev \<and> last_target_lane t = snd prev"
  shows "fed_back prev ts (run_ticks av s ts)"
  using assms
proof (induction ts arbitrary: s)
  case Nil
  then show ?case by simp
next
  case (Cons t ts)
  have cl: "current_lane t = l" using Cons.prems(5) by simp
  note step = committed_tick [OF Cons.prems(1-4) cl, of av]
  have ci: "choices_inv (snd (agent_tick av s t))"
    using Cons.prems(4) by (simp add: agent_tick_choices_inv)
  have rest: "\<forall>t \<in> set ts. current_lane t = l" using Cons.prems(5) by simp
  have args: "last_action t = fst prev" "last_target_lane t = snd prev"
    using Cons.prems(6) by simp_all
  have rest_args: "\<forall>t \<in> set ts. last_action t = fst prev \<and> last_target_lane t = snd prev"
    using Cons.prems(6) by simp
  have same: "(case fst (agent_tick av s t) of Inl e \<Rightarrow> prev
               | Inr res \<Rightarrow> (snd (snd res), fst (snd res))) = prev"
  proof (cases "fst (agent_tick av s t)")
    case (Inl e)
    then show ?thesis by simp
  next
    case (Inr res)
    obtain c tgt a where res: "res = (c, tgt, a)" by (cases res) auto
    have "fst (lane_change_action av (tick_world t) (set_info s (tick_info t))
            (current_lane t) (last_target_lane t) (last_action t)) = Inr (a, tgt)"
      using agent_tick_decision [of av s t c tgt a] Inr res by simp
    then have "a = fst prev" "tgt = snd prev" using step(1) args by auto
    then show ?thesis using Inr res by simp
  qed
  note ih = Cons.IH [OF step(2) step(3) Cons.prems(3) ci rest rest_args]
  show ?case using ih args same by simp
qed

text \<open>
  C1. Take an agent that has lived through any ticks since construction, and a step that
  returns action \<open>a0\<close> with target lane \<open>g0\<close> and leaves a change in progress. On every
  following tick whose current lane equals the recorded last lane, the caller passing back
  what the latest tick returned, \<open>_lane_change_action\<close> returns \<open>a0\<close> and \<open>g0\<close> again,
  whatever the candidate is, and so does \<open>run_step\<close> whenever it returns; the change stays
  in progress and the recorded lane stays the same.
\<close>

theorem commitment_invariant:
  assumes "s = snd (agent_tick av (agent_after av (init od) ts0) t0)"
    and "fst (agent_tick av (agent_after av (init od) ts0) t0) = Inr (c0, g0, a0)"
    and "lane_change_mode s"
    and "\<forall>t \<in> set ts. Some (current_lane t) = last_lane s"
    and "fed_back (a0, g0) ts (run_ticks av s ts)"
  shows "decisions av s ts = map (\<lambda>t. Inr (a0, g0)) ts
    \<and> list_all2 (\<lambda>t r. \<forall>c tgt a. r = Inr (c, tgt, a) \<longrightarrow> a = a0 \<and> tgt = g0)
        ts (run_ticks av s ts)
    \<and> lane_change_mode (agent_after av s ts)
    \<and> last_lane (agent_after av s ts) = last_lane s"
proof -
  have r: "s = agent_after av (init od) (ts0 @ [t0])"
    by (simp add: assms(1) agent_after_append)
  have i: "lane_inv s" and ci: "choices_inv s"
    using r
    by (simp_all only: agent_after_lane_inv init_lane_inv agent_after_choices_inv
          init_choices_inv)
  obtain l where l: "last_lane s = Some l" and nz: "l \<noteq> 0"
    using i assms(3) by (auto simp add: lane_inv_def)
  have all: "\<forall>t \<in> set ts. current_lane t = l"
    using assms(4) l by simp
  have args: "\<forall>t \<in> set ts. last_action t = a0 \<and> last_target_lane t = g0"
    using fed_back_arguments [OF assms(3) l nz ci all assms(5)] by simp
  note run = committed_run [OF assms(3) l nz ci all, of av]
  have d: "decisions av s ts = map (\<lambda>t. Inr (a0, g0)) ts"
    using run args by simp
  have "list_all2 (\<lambda>t r. \<forall>c tgt a. r = Inr (c, tgt, a)
                  \<longrightarrow> a = last_action t \<and> tgt = last_target_lane t)
        ts (run_ticks av s ts)"
    using run by simp
  then have o: "list_all2 (\<lambda>t r. \<forall>c tgt a. r = Inr (c, tgt, a) \<longrightarrow> a = a0 \<and> tgt = g0)
        ts (run_ticks av s ts)"
    by (rule list.rel_mono_strong) (use args in auto)
  show ?thesis
    using d o run l by simp
qed

lemma projection_result:
  "map_sum id snd r = Inr (g, a) \<Longrightarrow> \<exists>c. r = Inr (c, g, a)"
  by (cases r) auto

theorem commitment_invariant_witness:
  "map_sum id snd
     (fst (agent_tick value0 recorded_agent (tick0 info_gap (- 2) (- 2) LANE_FOLLOW)))
     = Inr (- 1, LANE_CHANGE_LEFT)
   \<and> lane_change_mode (agent_after value0 gap_init start_ticks)
   \<and> Some (current_lane (tick0 info_gap (- 2) (- 1) LANE_CHANGE_LEFT))
       = last_lane (agent_after value0 gap_init start_ticks)
   \<and> fed_back (LANE_CHANGE_LEFT, - 1)
        [tick0 info_gap (- 2) (- 1) LANE_CHANGE_LEFT,
         tick0 info_gap (- 2) (- 1) LANE_CHANGE_LEFT]
        (run_ticks value0 (agent_after value0 gap_init start_ticks)
           [tick0 info_gap (- 2) (- 1) LANE_CHANGE_LEFT,
            tick0 info_gap (- 2) (- 1) LANE_CHANGE_LEFT])
   \<and> decisions value0 (agent_after value0 gap_init start_ticks)
        [tick0 info_gap (- 2) (- 1) LANE_CHANGE_LEFT,
         tick0 info_gap (- 2) (- 1) LANE_CHANGE_LEFT]
       = [Inr (LANE_CHANGE_LEFT, - 1), Inr (LANE_CHANGE_LEFT, - 1)]
   \<and> lane_change_mode
        (agent_after value0 (agent_after value0 gap_init start_ticks)
           [tick0 info_gap (- 2) (- 1) LANE_CHANGE_LEFT,
            tick0 info_gap (- 2) (- 1) LANE_CHANGE_LEFT])"
proof -
  let ?start = "tick0 info_gap (- 2) (- 2) LANE_FOLLOW"
  let ?again = "tick0 info_gap (- 2) (- 1) LANE_CHANGE_LEFT"
  let ?s = "agent_after value0 gap_init start_ticks"
  let ?od = "default_opts\<lparr>opt_random_lane_change := Some False\<rparr>"
  have rec: "recorded_agent = agent_after value0 (init ?od) [?start]"
    by (simp add: recorded_agent_def gap_init_def)
  have s: "?s = snd (agent_tick value0 (agent_after value0 (init ?od) [?start]) ?start)"
    by (simp add: start_ticks_def gap_init_def)
  have p: "map_sum id snd (fst (agent_tick value0 recorded_agent ?start))
             = Inr (- 1, LANE_CHANGE_LEFT)"
    using start_run by (simp add: start_ticks_def recorded_agent_def)
  then obtain c0 where c0: "fst (agent_tick value0 (agent_after value0 (init ?od) [?start]) ?start)
                              = Inr (c0, - 1, LANE_CHANGE_LEFT)"
    using projection_result rec by metis
  have ci: "choices_inv ?s"
    by (simp add: agent_after_choices_inv gap_init_def init_choices_inv)
  have nz: "(- 2 :: int) \<noteq> 0" by simp
  have all: "\<forall>t \<in> set [?again, ?again]. current_lane t = - 2"
    by (simp add: tick0_fields)
  have args: "\<forall>t \<in> set [?again, ?again]. last_action t = fst (LANE_CHANGE_LEFT, - 1 :: int)
                \<and> last_target_lane t = snd (LANE_CHANGE_LEFT, - 1 :: int)"
    by (simp add: tick0_fields)
  have fb: "fed_back (LANE_CHANGE_LEFT, - 1) [?again, ?again] (run_ticks value0 ?s [?again, ?again])"
    by (rule committed_fed_back [OF started_fields(1) started_fields(2) nz ci all args])
  have h: "\<forall>t \<in> set [?again, ?again]. Some (current_lane t) = last_lane ?s"
    by (simp add: tick0_fields started_fields)
  show ?thesis
    using commitment_invariant [OF s c0 started_fields(1) h fb] p fb
    by (simp add: tick0_fields started_fields)
qed

subsection \<open>Gating by the enablement flags\<close>

lemma closed_side_buffer:
  "\<not> enable_left_change (set_info s info) \<Longrightarrow> left_wps (set_info s info) = []"
  "\<not> enable_right_change (set_info s info) \<Longrightarrow> right_wps (set_info s info) = []"
  by (simp_all add: set_info_enable_left set_info_enable_right set_info_buffers
        split: if_splits)

lemma agent_tick_no_change_on_empty:
  assumes "fst (agent_tick av s t) = Inr (c, tgt, a)"
    and "selected_wps (set_info s (tick_info t)) a = []"
  shows False
proof -
  let ?s = "set_info s (tick_info t)"
  have d: "fst (lane_change_action av (tick_world t) ?s (current_lane t)
                  (last_target_lane t) (last_action t)) = Inr (a, tgt)"
    by (rule agent_tick_decision [OF assms(1)])
  have "int (length (selected_wps ?s a))
          < next_wp_of (adjusted_min_distance (tick_world t) ?s) + base_index a"
    using assms(2) next_wp_of_range(1) [of "adjusted_min_distance (tick_world t) ?s"]
    by (cases a) (simp_all add: base_index_def)
  then have "fst (pid_run_step (tick_world t) ?s a) = Inl IndexError"
    by (rule pid_run_step_short)
  then have "fst (agent_tick av s t) = Inl IndexError"
    using d by (simp add: agent_tick_def run_step_outcome [OF set_info_distances(2)])
  then show False using assms(1) by simp
qed

text \<open>
  C2, amended. When \<open>_lane_change_action\<close> does not take the branch that repeats
  \<open>last_action\<close> (a change in progress on the recorded lane), the action it returns is not
  \<open>LANE_CHANGE_LEFT\<close> if \<open>enable_left_change\<close> is false and not \<open>LANE_CHANGE_RIGHT\<close> if
  \<open>enable_right_change\<close> is false, whichever policy produced the candidate. And on every
  tick (perception update, then \<open>run_step\<close>) on which \<open>run_step\<close> returns, the returned
  action is not a change towards a side whose flag is false.
\<close>

theorem gating_outside_commitment:
  "(\<not> (lane_change_mode s \<and> truthy_lane (last_lane s) \<and> last_lane s = Some cl)
      \<and> fst (lane_change_action av w s cl ltl la) = Inr (a, tgt)
    \<longrightarrow> (\<not> enable_left_change s \<longrightarrow> a \<noteq> LANE_CHANGE_LEFT)
        \<and> (\<not> enable_right_change s \<longrightarrow> a \<noteq> LANE_CHANGE_RIGHT))
   \<and> (fst (agent_tick av s t) = Inr (c, tgt', a')
    \<longrightarrow> (\<not> enable_left_change (set_info s (tick_info t)) \<longrightarrow> a' \<noteq> LANE_CHANGE_LEFT)
        \<and> (\<not> enable_right_change (set_info s (tick_info t)) \<longrightarrow> a' \<noteq> LANE_CHANGE_RIGHT))"
proof (intro conjI impI)
  assume h: "\<not> (lane_change_mode s \<and> truthy_lane (last_lane s) \<and> last_lane s = Some cl)
      \<and> fst (lane_change_action av w s cl ltl la) = Inr (a, tgt)"
  then obtain c0 where c0: "a = gate s c0 \<or> a = LANE_FOLLOW"
    using lane_change_action_fresh [of s cl av w ltl la a tgt] by blast
  {
    assume "\<not> enable_left_change s"
    then show "a \<noteq> LANE_CHANGE_LEFT" using c0 gate_closed(1) [of s c0] by auto
  }
  {
    assume "\<not> enable_right_change s"
    then show "a \<noteq> LANE_CHANGE_RIGHT" using c0 gate_closed(2) [of s c0] by auto
  }
next
  assume r: "fst (agent_tick av s t) = Inr (c, tgt', a')"
  {
    assume "\<not> enable_left_change (set_info s (tick_info t))"
    then have e: "left_wps (set_info s (tick_info t)) = []" by (rule closed_side_buffer)
    show "a' \<noteq> LANE_CHANGE_LEFT"
    proof
      assume "a' = LANE_CHANGE_LEFT"
      then have "selected_wps (set_info s (tick_info t)) a' = []"
        using e by (simp add: selected_wps_def)
      then show False using agent_tick_no_change_on_empty [OF r] by simp
    qed
  }
  {
    assume "\<not> enable_right_change (set_info s (tick_info t))"
    then have e: "right_wps (set_info s (tick_info t)) = []" by (rule closed_side_buffer)
    show "a' \<noteq> LANE_CHANGE_RIGHT"
    proof
      assume "a' = LANE_CHANGE_RIGHT"
      then have "selected_wps (set_info s (tick_info t)) a' = []"
        using e by (simp add: selected_wps_def)
      then show False using agent_tick_no_change_on_empty [OF r] by simp
    qed
  }
qed

lemma recorded_fields:
  "last_lane recorded_agent = Some (- 2)" "\<not> lane_change_mode recorded_agent"
  "\<not> random_lane_change recorded_agent" "\<not> ignore_change_gap recorded_agent"
  "base_min_distance recorded_agent = 3"
  by (simp_all add: recorded_agent_def first_tick_state agent_tick_base_min_distance
        gap_init_base)

lemma recorded_closed:
  "\<not> enable_left_change (set_info recorded_agent info_gap_no_left)"
  by (simp add: set_info_enable_left recorded_fields info_gap_fields)

lemma recorded_decision:
  "fst (lane_change_action value0 world0 (set_info recorded_agent info_gap_no_left)
          (- 2) (- 2) LANE_FOLLOW) = Inr (LANE_FOLLOW, - 2)"
proof -
  have c: "lane_change_candidate world0 (set_info recorded_agent info_gap_no_left) (- 2)
             = Inr LANE_CHANGE_LEFT"
    by (rule gap_candidate_left [OF recorded_fields(3) info_gap_fields(6) info_gap_fields(7)])
  have g: "gate (set_info recorded_agent info_gap_no_left) LANE_CHANGE_LEFT = LANE_FOLLOW"
    using recorded_closed by (simp add: gate_def)
  show ?thesis
    by (simp add: lane_change_action_def c g set_info_config recorded_fields truthy_lane_def
          value0_def Let_def)
qed

theorem gating_outside_commitment_witness:
  "\<not> (lane_change_mode (set_info recorded_agent info_gap_no_left)
        \<and> truthy_lane (last_lane (set_info recorded_agent info_gap_no_left))
        \<and> last_lane (set_info recorded_agent info_gap_no_left) = Some (- 2))
   \<and> fst (lane_change_action value0 world0 (set_info recorded_agent info_gap_no_left)
            (- 2) (- 2) LANE_FOLLOW) = Inr (LANE_FOLLOW, - 2)
   \<and> \<not> enable_left_change (set_info recorded_agent info_gap_no_left)
   \<and> map_sum id snd
        (fst (agent_tick value0 recorded_agent
                (tick0 info_gap_no_left (- 2) (- 2) LANE_FOLLOW)))
       = Inr (- 2, LANE_FOLLOW)
   \<and> LANE_FOLLOW \<noteq> LANE_CHANGE_LEFT"
proof -
  let ?t = "tick0 info_gap_no_left (- 2) (- 2) LANE_FOLLOW"
  have p: "map_sum id snd (fst (agent_tick value0 recorded_agent ?t)) = Inr (- 2, LANE_FOLLOW)"
    by (rule agent_tick_projection [OF recorded_decision recorded_fields(5)
          selected_wps_update(2)])
  then obtain c where c: "fst (agent_tick value0 recorded_agent ?t) = Inr (c, - 2, LANE_FOLLOW)"
    by (cases "fst (agent_tick value0 recorded_agent ?t)") auto
  have m: "\<not> lane_change_mode (set_info recorded_agent info_gap_no_left)"
    by (simp add: set_info_config recorded_fields)
  show ?thesis
    using gating_outside_commitment [where s = "set_info recorded_agent info_gap_no_left"
        and cl = "- 2" and av = value0 and w = world0 and ltl = "- 2" and la = LANE_FOLLOW
        and a = LANE_FOLLOW and tgt = "- 2"]
      gating_outside_commitment [where s = recorded_agent and av = value0 and t = ?t
        and c = c and tgt' = "- 2" and a' = LANE_FOLLOW]
      c p m recorded_decision recorded_closed
    by (simp add: tick0_fields)
qed

text \<open>The claim C2 as stated fails while a change is in progress: the left flag is false
  after the update (the left front buffer is empty), and the decision repeats the left
  change that the previous tick returned.\<close>

theorem gating_in_progress_left:
  "map (map_sum id snd) (run_ticks value0 gap_init start_ticks)
     = [Inr (- 2, LANE_FOLLOW), Inr (- 1, LANE_CHANGE_LEFT)]
   \<and> \<not> enable_left_change (set_info (agent_after value0 gap_init start_ticks) info_gap_no_left)
   \<and> fst (lane_change_action value0 world0
            (set_info (agent_after value0 gap_init start_ticks) info_gap_no_left)
            (- 2) (- 1) LANE_CHANGE_LEFT)
       = Inr (LANE_CHANGE_LEFT, - 1)"
  by (simp add: start_run started_decision set_info_enable_left started_fields
        info_gap_fields)

subsection \<open>A lane outside the three lanes\<close>

theorem unrecognized_lane_follows_witness:
  "current_lane (tick0 info_gap (- 4) (- 1) LANE_CHANGE_LEFT) \<noteq> - 1
   \<and> current_lane (tick0 info_gap (- 4) (- 1) LANE_CHANGE_LEFT) \<noteq> - 2
   \<and> current_lane (tick0 info_gap (- 4) (- 1) LANE_CHANGE_LEFT) \<noteq> - 3
   \<and> lane_change_mode (agent_after value0 gap_init start_ticks)
   \<and> fst (lane_change_action value0 world0
            (set_info (agent_after value0 gap_init start_ticks) info_gap)
            (- 4) (- 1) LANE_CHANGE_LEFT)
       = Inr (LANE_FOLLOW, - 4)"
proof -
  let ?t = "tick0 info_gap (- 4) (- 1) LANE_CHANGE_LEFT"
  have n: "current_lane ?t \<noteq> - 1" "current_lane ?t \<noteq> - 2" "current_lane ?t \<noteq> - 3"
    by (simp_all add: tick0_fields)
  have d: "fst (lane_change_action value0 world0
            (set_info (agent_after value0 gap_init start_ticks) info_gap)
            (- 4) (- 1) LANE_CHANGE_LEFT)
       = Inr (LANE_FOLLOW, - 4)"
    by (simp add: lane_change_action_def lane_change_candidate_def gate_follow set_info_config
          started_fields truthy_lane_def Let_def)
  show ?thesis
    using unrecognized_lane_follows [OF n, of value0
        "default_opts\<lparr>opt_random_lane_change := Some False\<rparr>" start_ticks] d n
    by (simp add: started_fields)
qed

end
